theory Spec2Isabelle
  imports Complex_Main "HOL-Library.AList"
begin

section \<open>Python values\<close>

text \<open>
  The program is Python 2 (\<^verbatim>\<open>xrange\<close>, \<^verbatim>\<open>unicode\<close>). Its values are embedded as one
  datatype. Conventions of the embedding:
  \<^item> an \<^verbatim>\<open>int\<close> is an unbounded integer (the promotion of a machine \<^verbatim>\<open>int\<close> to
    \<^verbatim>\<open>long\<close> beyond \<^verbatim>\<open>sys.maxint\<close> is not represented);
  \<^item> a \<^verbatim>\<open>float\<close> is a finite real, an infinity or NaN: the arithmetic on finite
    values is exact (no rounding to 53 bits, no signed zero);
  \<^item> a \<^verbatim>\<open>timedelta\<close> is its total number of microseconds, an exact integer, as the
    library normalises it;
  \<^item> \<^verbatim>\<open>str\<close> and \<^verbatim>\<open>unicode\<close> are character lists with different type tags;
  \<^item> a dictionary is an association list with distinct keys, in the order the keys were
    first stored, which stands for the iteration order of the dictionary;
  \<^item> an exception is a value of \<open>py_error\<close>, returned on the left of a sum.
\<close>

datatype py_error =
  IndexError | KeyError | ValueError | TypeError | OverflowError
  | ZeroDivisionError | AssertionError | AttributeError

datatype pyfloat = Fin real | PosInf | NegInf | NaN

datatype pyval =
  PNone
  | PBool bool
  | PInt int
  | PFloat pyfloat
  | PStr string
  | PUnicode string
  | PTimedelta int
  | PList "pyval list"
  | PTuple "pyval list"
  | PWithDelta pyval pyval

datatype py_type =
  Ty_NoneType | Ty_bool | Ty_int | Ty_float | Ty_str | Ty_unicode
  | Ty_timedelta | Ty_list | Ty_tuple | Ty_withdelta

text \<open>\<^verbatim>\<open>type(x)\<close>.\<close>

fun type_of :: "pyval \<Rightarrow> py_type" where
  "type_of PNone = Ty_NoneType"
| "type_of (PBool _) = Ty_bool"
| "type_of (PInt _) = Ty_int"
| "type_of (PFloat _) = Ty_float"
| "type_of (PStr _) = Ty_str"
| "type_of (PUnicode _) = Ty_unicode"
| "type_of (PTimedelta _) = Ty_timedelta"
| "type_of (PList _) = Ty_list"
| "type_of (PTuple _) = Ty_tuple"
| "type_of (PWithDelta _ _) = Ty_withdelta"

type_synonym pydict = "(string \<times> pyval) list"

subsection \<open>Float arithmetic and comparison\<close>

fun f_neg :: "pyfloat \<Rightarrow> pyfloat" where
  "f_neg (Fin x) = Fin (- x)"
| "f_neg PosInf = NegInf"
| "f_neg NegInf = PosInf"
| "f_neg NaN = NaN"

fun f_add :: "pyfloat \<Rightarrow> pyfloat \<Rightarrow> pyfloat" where
  "f_add NaN _ = NaN"
| "f_add _ NaN = NaN"
| "f_add (Fin x) (Fin y) = Fin (x + y)"
| "f_add (Fin _) b = b"
| "f_add a (Fin _) = a"
| "f_add PosInf PosInf = PosInf"
| "f_add NegInf NegInf = NegInf"
| "f_add PosInf NegInf = NaN"
| "f_add NegInf PosInf = NaN"

definition f_sub :: "pyfloat \<Rightarrow> pyfloat \<Rightarrow> pyfloat" where
  "f_sub a b = f_add a (f_neg b)"

fun f_sgn :: "pyfloat \<Rightarrow> int" where
  "f_sgn (Fin x) = (if x > 0 then 1 else if x < 0 then - 1 else 0)"
| "f_sgn PosInf = 1"
| "f_sgn NegInf = - 1"
| "f_sgn NaN = 0"

definition f_inf_sign :: "int \<Rightarrow> pyfloat" where
  "f_inf_sign s = (if s > 0 then PosInf else if s < 0 then NegInf else NaN)"

fun f_mul :: "pyfloat \<Rightarrow> pyfloat \<Rightarrow> pyfloat" where
  "f_mul NaN _ = NaN"
| "f_mul _ NaN = NaN"
| "f_mul (Fin x) (Fin y) = Fin (x * y)"
| "f_mul a b = f_inf_sign (f_sgn a * f_sgn b)"

text \<open>Float division raises on a zero divisor, whatever the dividend.\<close>

fun f_div :: "pyfloat \<Rightarrow> pyfloat \<Rightarrow> py_error + pyfloat" where
  "f_div a (Fin y) =
     (if y = 0 then Inl ZeroDivisionError
      else case a of
        Fin x \<Rightarrow> Inr (Fin (x / y))
      | NaN \<Rightarrow> Inr NaN
      | _ \<Rightarrow> Inr (f_inf_sign (f_sgn a * f_sgn (Fin y))))"
| "f_div a NaN = Inr NaN"
| "f_div (Fin x) b = Inr (Fin 0)"
| "f_div a b = Inr NaN"

fun f_eq :: "pyfloat \<Rightarrow> pyfloat \<Rightarrow> bool" where
  "f_eq (Fin x) (Fin y) = (x = y)"
| "f_eq PosInf PosInf = True"
| "f_eq NegInf NegInf = True"
| "f_eq _ _ = False"

text \<open>\<open>f_gt a b\<close> is \<^verbatim>\<open>a > b\<close>: false whenever an operand is NaN.\<close>

fun f_gt :: "pyfloat \<Rightarrow> pyfloat \<Rightarrow> bool" where
  "f_gt NaN _ = False"
| "f_gt _ NaN = False"
| "f_gt (Fin x) (Fin y) = (x > y)"
| "f_gt PosInf b = (b \<noteq> PosInf)"
| "f_gt a NegInf = (a \<noteq> NegInf)"
| "f_gt _ _ = False"

definition f_ge :: "pyfloat \<Rightarrow> pyfloat \<Rightarrow> bool" where
  "f_ge a b = (f_gt a b \<or> f_eq a b)"

fun f_abs :: "pyfloat \<Rightarrow> pyfloat" where
  "f_abs (Fin x) = Fin \<bar>x\<bar>"
| "f_abs PosInf = PosInf"
| "f_abs NegInf = PosInf"
| "f_abs NaN = NaN"

text \<open>\<^verbatim>\<open>float(i)\<close> of an integer, and \<^verbatim>\<open>int(f)\<close> of a float (truncation toward zero).\<close>

definition float_of_int :: "int \<Rightarrow> pyfloat" where
  "float_of_int i = Fin (of_int i)"

definition trunc_toward_zero :: "real \<Rightarrow> int" where
  "trunc_toward_zero x = (if x \<ge> 0 then \<lfloor>x\<rfloor> else \<lceil>x\<rceil>)"

fun int_of_float :: "pyfloat \<Rightarrow> py_error + int" where
  "int_of_float (Fin x) = Inr (trunc_toward_zero x)"
| "int_of_float NaN = Inl ValueError"
| "int_of_float _ = Inl OverflowError"

subsection \<open>Durations\<close>

text \<open>
  \<^verbatim>\<open>datetime.timedelta\<close> is library code: a duration is kept as whole microseconds
  between \<^verbatim>\<open>timedelta.min\<close> and \<^verbatim>\<open>timedelta.max\<close> (999999999 days on either side),
  a float argument is rounded to the nearest microsecond, halves away from zero.
\<close>

definition td_in_range :: "int \<Rightarrow> bool" where
  "td_in_range us =
     (- (999999999 * 86400 * 1000000) \<le> us
      \<and> us \<le> (999999999 * 86400 + 86399) * 1000000 + 999999)"

definition round_to_long :: "real \<Rightarrow> int" where
  "round_to_long x = (if x \<ge> 0 then \<lfloor>x + 1 / 2\<rfloor> else \<lceil>x - 1 / 2\<rceil>)"

definition total_seconds :: "int \<Rightarrow> pyfloat" where
  "total_seconds us = Fin (of_int us / 1000000)"

text \<open>
  \<^verbatim>\<open>timedelta(days=d, hours=h, minutes=m, seconds=s)\<close> with float arguments. The
  library converts the seconds, the minutes, the hours and the days, in this order, and
  the first argument that is no finite number raises: \<^verbatim>\<open>ValueError\<close> for NaN,
  \<^verbatim>\<open>OverflowError\<close> for an infinity.
\<close>

fun float_arg_error :: "pyfloat \<Rightarrow> py_error option" where
  "float_arg_error (Fin _) = None"
| "float_arg_error NaN = Some ValueError"
| "float_arg_error _ = Some OverflowError"

definition timedelta :: "pyfloat \<Rightarrow> pyfloat \<Rightarrow> pyfloat \<Rightarrow> pyfloat \<Rightarrow> py_error + pyval" where
  "timedelta d h m s =
     (case List.find (\<lambda>e. e \<noteq> None) (map float_arg_error [s, m, h, d]) of
        Some (Some e) \<Rightarrow> Inl e
      | _ \<Rightarrow>
          (case (d, h, m, s) of
             (Fin dd, Fin hh, Fin mm, Fin ss) \<Rightarrow>
               (let us = round_to_long ((((dd * 24 + hh) * 60 + mm) * 60 + ss) * 1000000)
                in if td_in_range us then Inr (PTimedelta us) else Inl OverflowError)
           | _ \<Rightarrow> Inl OverflowError))"

definition timedelta_seconds :: "pyfloat \<Rightarrow> py_error + pyval" where
  "timedelta_seconds s = timedelta (Fin 0) (Fin 0) (Fin 0) s"

subsection \<open>Addition\<close>

text \<open>The numeric view of a value: \<^verbatim>\<open>bool\<close> and \<^verbatim>\<open>int\<close> are integers, a float is a float.\<close>

fun py_num :: "pyval \<Rightarrow> (int + pyfloat) option" where
  "py_num (PBool b) = Some (Inl (if b then 1 else 0))"
| "py_num (PInt i) = Some (Inl i)"
| "py_num (PFloat f) = Some (Inr f)"
| "py_num _ = None"

fun num_to_float :: "int + pyfloat \<Rightarrow> pyfloat" where
  "num_to_float (Inl i) = float_of_int i"
| "num_to_float (Inr f) = f"

definition py_add_num :: "pyval \<Rightarrow> pyval \<Rightarrow> py_error + pyval" where
  "py_add_num x y =
     (case (py_num x, py_num y) of
        (Some (Inl i), Some (Inl j)) \<Rightarrow> Inr (PInt (i + j))
      | (Some a, Some b) \<Rightarrow> Inr (PFloat (f_add (num_to_float a) (num_to_float b)))
      | _ \<Rightarrow> Inl TypeError)"

text \<open>
  \<^verbatim>\<open>x + y\<close>: numbers, strings, durations, lists and tuples; any other pair of operands
  (a \<^verbatim>\<open>withdelta\<close> among them: special methods are not forwarded) is a \<^verbatim>\<open>TypeError\<close>.
\<close>

definition py_add :: "pyval \<Rightarrow> pyval \<Rightarrow> py_error + pyval" where
  "py_add x y =
     (case x of
        PStr a \<Rightarrow> (case y of PStr b \<Rightarrow> Inr (PStr (a @ b))
                    | PUnicode b \<Rightarrow> Inr (PUnicode (a @ b))
                    | _ \<Rightarrow> Inl TypeError)
      | PUnicode a \<Rightarrow> (case y of PStr b \<Rightarrow> Inr (PUnicode (a @ b))
                    | PUnicode b \<Rightarrow> Inr (PUnicode (a @ b))
                    | _ \<Rightarrow> Inl TypeError)
      | PTimedelta a \<Rightarrow> (case y of
                      PTimedelta b \<Rightarrow>
                        if td_in_range (a + b) then Inr (PTimedelta (a + b))
                        else Inl OverflowError
                    | _ \<Rightarrow> Inl TypeError)
      | PList a \<Rightarrow> (case y of PList b \<Rightarrow> Inr (PList (a @ b)) | _ \<Rightarrow> Inl TypeError)
      | PTuple a \<Rightarrow> (case y of PTuple b \<Rightarrow> Inr (PTuple (a @ b)) | _ \<Rightarrow> Inl TypeError)
      | _ \<Rightarrow> py_add_num x y)"

text \<open>The elements of an iterable value, for \<^verbatim>\<open>list.__iadd__\<close>.\<close>

fun py_iter :: "pyval \<Rightarrow> pyval list option" where
  "py_iter (PList ys) = Some ys"
| "py_iter (PTuple ys) = Some ys"
| "py_iter (PStr s) = Some (map (\<lambda>c. PStr [c]) s)"
| "py_iter (PUnicode s) = Some (map (\<lambda>c. PUnicode [c]) s)"
| "py_iter _ = None"

text \<open>\<^verbatim>\<open>x += y\<close>: a list is extended by any iterable, everything else is \<^verbatim>\<open>x + y\<close>.\<close>

definition py_iadd :: "pyval \<Rightarrow> pyval \<Rightarrow> py_error + pyval" where
  "py_iadd x y =
     (case x of
        PList a \<Rightarrow> (case py_iter y of Some ys \<Rightarrow> Inr (PList (a @ ys)) | None \<Rightarrow> Inl TypeError)
      | _ \<Rightarrow> py_add x y)"

section \<open>The extraction engine (extractor.py)\<close>

text \<open>
  \<^verbatim>\<open>ExtractorBase\<close>: the fields \<^verbatim>\<open>value\<close>, \<^verbatim>\<open>num_of_matches\<close> and \<^verbatim>\<open>policy\<close>.
  The field \<^verbatim>\<open>value\<close> is named \<open>ex_value\<close> here.
\<close>

record extractor =
  ex_value :: pyval
  num_of_matches :: int
  policy :: string

definition POLICY_KEEP_LAST :: string where "POLICY_KEEP_LAST = ''POLICY_KEEP_LAST''"
definition POLICY_KEEP_FIRST :: string where "POLICY_KEEP_FIRST = ''POLICY_KEEP_FIRST''"
definition POLICY_SUM :: string where "POLICY_SUM = ''POLICY_SUM''"
definition POLICY_APPEND :: string where "POLICY_APPEND = ''POLICY_APPEND''"

text \<open>\<^verbatim>\<open>ExtractorBase.__init__\<close>.\<close>

definition ExtractorBase_init :: "string \<Rightarrow> extractor" where
  "ExtractorBase_init p = \<lparr>ex_value = PNone, num_of_matches = 0, policy = p\<rparr>"

text \<open>
  \<^verbatim>\<open>ExtractorBase.process_line\<close>. The method \<^verbatim>\<open>extract_value_from_line\<close> of the subclass
  is the first argument; it returns a value (\<^verbatim>\<open>None\<close> for no match) or raises.
\<close>

definition process_line ::
  "(string \<Rightarrow> py_error + pyval) \<Rightarrow> extractor \<Rightarrow> string \<Rightarrow> py_error + extractor" where
  "process_line extract_value_from_line self line =
     (case extract_value_from_line line of
        Inl e \<Rightarrow> Inl e
      | Inr candidate \<Rightarrow>
          if candidate \<noteq> PNone then
            (let self1 = self\<lparr>num_of_matches := num_of_matches self + 1\<rparr> in
             if ex_value self1 = PNone then
               Inr (self1\<lparr>ex_value :=
                      (if policy self1 \<noteq> POLICY_APPEND then candidate else PList [candidate])\<rparr>)
             else if policy self1 = POLICY_KEEP_FIRST then Inr self1
             else if policy self1 = POLICY_KEEP_LAST then Inr (self1\<lparr>ex_value := candidate\<rparr>)
             else if policy self1 = POLICY_SUM then
               (case py_iadd (ex_value self1) candidate of
                  Inl e \<Rightarrow> Inl e
                | Inr v \<Rightarrow> Inr (self1\<lparr>ex_value := v\<rparr>))
             else if policy self1 = POLICY_APPEND then
               (case py_iadd (ex_value self1) (PList [candidate]) of
                  Inl e \<Rightarrow> Inl e
                | Inr v \<Rightarrow> Inr (self1\<lparr>ex_value := v\<rparr>))
             else Inr self1)
          else Inr self)"

text \<open>
  The part of \<^verbatim>\<open>StatsExtractorBase.scan\<close> that concerns one extractor: every line of the
  file is fed to \<^verbatim>\<open>process_line\<close>, in order; an exception ends the scan.
\<close>

fun scan_lines ::
  "(string \<Rightarrow> py_error + pyval) \<Rightarrow> extractor \<Rightarrow> string list \<Rightarrow> py_error + extractor" where
  "scan_lines extract_value_from_line self [] = Inr self"
| "scan_lines extract_value_from_line self (line # rest) =
     (case process_line extract_value_from_line self line of
        Inl e \<Rightarrow> Inl e
      | Inr self1 \<Rightarrow> scan_lines extract_value_from_line self1 rest)"


text \<open>
  The same scan seen from the candidates: \<^verbatim>\<open>process_line\<close> applied to each accepted
  candidate in turn (used to state and prove properties of \<open>scan_lines\<close>).
\<close>

fun accept_all :: "extractor \<Rightarrow> pyval list \<Rightarrow> py_error + extractor" where
  "accept_all self [] = Inr self"
| "accept_all self (m # ms) =
     (case process_line (\<lambda>_. Inr m) self [] of
        Inl e \<Rightarrow> Inl e
      | Inr self1 \<Rightarrow> accept_all self1 ms)"

text \<open>The states from which \<^verbatim>\<open>process_line\<close> cannot raise: the policy is not SUM, and
  under APPEND the value is still \<^verbatim>\<open>None\<close> or a list.\<close>

definition returns_without_sum :: "extractor \<Rightarrow> bool" where
  "returns_without_sum s =
     (policy s \<noteq> POLICY_SUM \<and>
      (policy s = POLICY_APPEND \<longrightarrow> ex_value s = PNone \<or> (\<exists>xs. ex_value s = PList xs)))"

text \<open>An extraction method for examples: the length of the line, no match on \<^verbatim>\<open>-\<close>.\<close>

definition demo_extract :: "string \<Rightarrow> py_error + pyval" where
  "demo_extract l = Inr (if l = ''-'' then PNone else PInt (int (length l)))"


subsection \<open>Value-converting extractors\<close>

text \<open>
  \<^verbatim>\<open>ValueConverterExtractorBase.extract_value_from_line\<close>: the wrapped extractor's method
  and \<^verbatim>\<open>convert_raw_value\<close> of the subclass are arguments.
\<close>

definition ValueConverter_extract_value_from_line ::
  "(pyval \<Rightarrow> py_error + pyval) \<Rightarrow> (string \<Rightarrow> py_error + pyval) \<Rightarrow> string \<Rightarrow> py_error + pyval" where
  "ValueConverter_extract_value_from_line convert_raw_value other_extract line =
     (case other_extract line of
        Inl e \<Rightarrow> Inl e
      | Inr candidate \<Rightarrow>
          if candidate \<noteq> PNone then convert_raw_value candidate else Inr PNone)"

text \<open>
  The builtins \<^verbatim>\<open>int(x)\<close> and \<^verbatim>\<open>float(x)\<close> are library code and stay parameters
  \<open>py_int\<close> and \<open>py_float\<close>: \<open>None\<close> when the builtin raises.
  \<^verbatim>\<open>IntConverterExtractor\<close> and \<^verbatim>\<open>FloatConverterExtractor\<close> catch every exception.
\<close>

definition IntConverterExtractor_convert_raw_value ::
  "(pyval \<Rightarrow> int option) \<Rightarrow> pyval \<Rightarrow> py_error + pyval" where
  "IntConverterExtractor_convert_raw_value py_int raw_value =
     (case py_int raw_value of Some n \<Rightarrow> Inr (PInt n) | None \<Rightarrow> Inr PNone)"

definition FloatConverterExtractor_convert_raw_value ::
  "(pyval \<Rightarrow> pyfloat option) \<Rightarrow> pyval \<Rightarrow> py_error + pyval" where
  "FloatConverterExtractor_convert_raw_value py_float raw_value =
     (case py_float raw_value of Some f \<Rightarrow> Inr (PFloat f) | None \<Rightarrow> Inr PNone)"

text \<open>The characters of a string value, and a string value of the same type.\<close>

fun str_chars :: "pyval \<Rightarrow> string option" where
  "str_chars (PStr s) = Some s"
| "str_chars (PUnicode s) = Some s"
| "str_chars _ = None"

fun same_str :: "pyval \<Rightarrow> string \<Rightarrow> pyval" where
  "same_str (PUnicode _) s = PUnicode s"
| "same_str _ s = PStr s"

text \<open>\<^verbatim>\<open>s.split(sep)\<close> with a one-character separator.\<close>

fun split_on :: "char \<Rightarrow> string \<Rightarrow> string list" where
  "split_on sep [] = [[]]"
| "split_on sep (c # cs) =
     (if c = sep then [] # split_on sep cs
      else (case split_on sep cs of
              p # ps \<Rightarrow> (c # p) # ps
            | [] \<Rightarrow> [[c]]))"

text \<open>
  \<^verbatim>\<open>[float(piece) for piece in pieces]\<close> inside \<^verbatim>\<open>try\<close>: \<open>None\<close> when a piece does
  not parse.
\<close>

fun float_pieces :: "(pyval \<Rightarrow> pyfloat option) \<Rightarrow> pyval list \<Rightarrow> pyfloat list option" where
  "float_pieces py_float [] = Some []"
| "float_pieces py_float (p # ps) =
     (case py_float p of
        None \<Rightarrow> None
      | Some f \<Rightarrow> (case float_pieces py_float ps of None \<Rightarrow> None | Some fs \<Rightarrow> Some (f # fs)))"

text \<open>
  \<^verbatim>\<open>TimeConverterExtractor.convert_raw_value\<close>. The call of \<^verbatim>\<open>timedelta\<close> stands outside
  the \<^verbatim>\<open>try\<close>; a value that is not a string has no method \<^verbatim>\<open>split\<close>.
\<close>

definition TimeConverterExtractor_convert_raw_value ::
  "(pyval \<Rightarrow> pyfloat option) \<Rightarrow> pyval \<Rightarrow> py_error + pyval" where
  "TimeConverterExtractor_convert_raw_value py_float raw_value =
     (case str_chars raw_value of
        None \<Rightarrow> Inl AttributeError
      | Some s \<Rightarrow>
          (let pieces = split_on (CHR '':'') s in
           if length pieces > 4 then Inr PNone
           else case float_pieces py_float (map (same_str raw_value) pieces) of
             None \<Rightarrow> Inr PNone
           | Some fs \<Rightarrow>
               (let ps = (if length fs < 4 then replicate (4 - length fs) (Fin 0) @ fs else fs)
                in timedelta (ps ! 0) (ps ! 1) (ps ! 2) (ps ! 3))))"

text \<open>\<^verbatim>\<open>str.lower\<close> on ASCII letters.\<close>

definition lower_char :: "char \<Rightarrow> char" where
  "lower_char c =
     (case map_of (zip ''ABCDEFGHIJKLMNOPQRSTUVWXYZ'' ''abcdefghijklmnopqrstuvwxyz'') c of
        Some d \<Rightarrow> d
      | None \<Rightarrow> c)"

text \<open>
  \<^verbatim>\<open>MemoryConverterExtractor.convert_raw_value\<close>. Nothing is caught here:
  \<^verbatim>\<open>raw_value[-1]\<close> raises \<^verbatim>\<open>IndexError\<close> on an empty string, \<^verbatim>\<open>float\<close> raises
  \<^verbatim>\<open>ValueError\<close> on a string that is no number, and \<^verbatim>\<open>int\<close> raises on an infinity or NaN.
\<close>

definition MemoryConverterExtractor_convert_raw_value ::
  "(pyval \<Rightarrow> pyfloat option) \<Rightarrow> pyval \<Rightarrow> py_error + pyval" where
  "MemoryConverterExtractor_convert_raw_value py_float raw_value =
     (case str_chars raw_value of
        None \<Rightarrow> Inl AttributeError
      | Some s0 \<Rightarrow>
          (let s = map lower_char s0 in
           if s = [] then Inl IndexError
           else
             (let s1 = (if last s = CHR ''b'' then butlast s else s) in
              if s1 = [] then Inl IndexError
              else
                (let factor = (if last s1 \<in> set ''kmg'' then
                                 (if last s1 = CHR ''k'' then 1000
                                  else if last s1 = CHR ''m'' then 1000000
                                  else 1000000000)
                               else 1);
                     s2 = (if last s1 \<in> set ''kmg'' then butlast s1 else s1)
                 in case py_float (same_str raw_value s2) of
                      None \<Rightarrow> Inl ValueError
                    | Some f \<Rightarrow>
                        (case int_of_float (f_mul f (Fin factor)) of
                           Inl e \<Rightarrow> Inl e
                         | Inr n \<Rightarrow> Inr (PInt n))))))"

section \<open>Deltas (extractor.py, withdelta.py)\<close>

text \<open>\<^verbatim>\<open>val_of\<close> of withdelta.py.\<close>

fun val_of :: "pyval \<Rightarrow> pyval" where
  "val_of (PWithDelta v d) = v"
| "val_of obj = obj"

text \<open>
  \<^verbatim>\<open>x == y\<close>. Numbers compare by value across \<^verbatim>\<open>bool\<close>, \<^verbatim>\<open>int\<close> and \<^verbatim>\<open>float\<close>, NaN
  equals nothing, \<^verbatim>\<open>str\<close> and \<^verbatim>\<open>unicode\<close> compare by their characters, lists and tuples
  elementwise. A \<^verbatim>\<open>withdelta\<close> object defines no equality and compares by identity:
  two \<open>PWithDelta\<close> values stand for two objects, and are unequal.
\<close>

definition num_eq :: "int + pyfloat \<Rightarrow> int + pyfloat \<Rightarrow> bool" where
  "num_eq a b =
     (case (a, b) of
        (Inl i, Inl j) \<Rightarrow> i = j
      | _ \<Rightarrow> f_eq (num_to_float a) (num_to_float b))"

fun py_eq :: "pyval \<Rightarrow> pyval \<Rightarrow> bool"
  and py_eq_list :: "pyval list \<Rightarrow> pyval list \<Rightarrow> bool" where
  "py_eq x y =
     (case x of
        PNone \<Rightarrow> y = PNone
      | PStr a \<Rightarrow> (case str_chars y of Some b \<Rightarrow> a = b | None \<Rightarrow> False)
      | PUnicode a \<Rightarrow> (case str_chars y of Some b \<Rightarrow> a = b | None \<Rightarrow> False)
      | PTimedelta a \<Rightarrow> (case y of PTimedelta b \<Rightarrow> a = b | _ \<Rightarrow> False)
      | PList a \<Rightarrow> (case y of PList b \<Rightarrow> py_eq_list a b | _ \<Rightarrow> False)
      | PTuple a \<Rightarrow> (case y of PTuple b \<Rightarrow> py_eq_list a b | _ \<Rightarrow> False)
      | PWithDelta _ _ \<Rightarrow> False
      | _ \<Rightarrow> (case (py_num x, py_num y) of (Some a, Some b) \<Rightarrow> num_eq a b | _ \<Rightarrow> False))"
| "py_eq_list [] [] = True"
| "py_eq_list (a # as) (b # bs) = (py_eq a b \<and> py_eq_list as bs)"
| "py_eq_list _ _ = False"

text \<open>
  \<^verbatim>\<open>StatsExtractorBase.get_delta_percent\<close>. The source picks the pair of lambdas
  \<^verbatim>\<open>is_valid\<close>, \<^verbatim>\<open>to_float\<close> by \<^verbatim>\<open>type(val1)\<close> and applies them to both operands; it
  does so only after the test that both operands have the same type, so each lambda is
  written here as a function of the operand it is applied to.
\<close>

fun is_valid :: "pyval \<Rightarrow> bool" where
  "is_valid (PTimedelta us) = f_ge (total_seconds us) (Fin 0)"
| "is_valid (PInt i) = (i \<ge> 0)"
| "is_valid (PStr _) = True"
| "is_valid (PUnicode _) = True"
| "is_valid (PFloat f) = f_eq f f"
| "is_valid _ = False"

fun to_float :: "pyval \<Rightarrow> pyfloat" where
  "to_float (PTimedelta us) = total_seconds us"
| "to_float (PInt i) = float_of_int i"
| "to_float (PFloat f) = f"
| "to_float _ = Fin 0"

definition get_delta_percent :: "pyval \<Rightarrow> pyval \<Rightarrow> py_error + pyval" where
  "get_delta_percent val1 val2 =
     (if val1 = PNone \<and> val2 = PNone then Inr PNone
      else if type_of val1 \<noteq> type_of val2 then Inr PNone
      else if is_valid val1 \<and> is_valid val2 then
        (if py_eq val1 val2 then Inr (PFloat (Fin 0))
         else if f_eq (f_abs (to_float val1)) (Fin 0) then
           Inr (PFloat (if f_gt (to_float val2) (Fin 0) then PosInf else NegInf))
         else
           (case f_div (f_sub (to_float val2) (to_float val1)) (to_float val1) of
              Inl e \<Rightarrow> Inl e
            | Inr q \<Rightarrow> Inr (PFloat q)))
      else Inr (PFloat NaN))"


section \<open>Records and grouping (extractor.py)\<close>

text \<open>
  A \<^verbatim>\<open>StatsExtractorBase\<close> object after its scan: its extractors by key, the keys its
  subclass declares as extracted attributes, and the methods \<^verbatim>\<open>get_<name>\<close> of the
  subclass (each by its attribute name, with the value its call returns).
\<close>

record stats_extractor =
  extractors :: "(string \<times> extractor) list"
  extracted_attributes :: "string list"
  getters :: "(string \<times> pyval) list"

text \<open>
  \<^verbatim>\<open>StatsExtractorBase.__getattr__\<close>, the lookup \<^verbatim>\<open>as_dict\<close> relies on for the extracted
  attributes. (Python asks \<^verbatim>\<open>__getattr__\<close> only for a name the object does not have
  otherwise; the extracted attributes are taken not to be names of fields or methods of the
  class, as its documentation requires.)
\<close>

definition StatsExtractorBase_getattr :: "stats_extractor \<Rightarrow> string \<Rightarrow> py_error + pyval" where
  "StatsExtractorBase_getattr self name =
     (if name \<in> set [''extractors'', ''extracted_attributes''] then Inl AttributeError
      else case map_of (extractors self) name of
        Some e \<Rightarrow> Inr (ex_value e)
      | None \<Rightarrow>
          if name \<in> set (extracted_attributes self) then
            (case map_of (getters self) name of
               Some v \<Rightarrow> Inr v
             | None \<Rightarrow> Inl AttributeError)
          else Inl AttributeError)"

text \<open>\<^verbatim>\<open>StatsExtractorBase.as_dict\<close>: the loop over the extracted attributes.\<close>

fun as_dict_loop :: "stats_extractor \<Rightarrow> string list \<Rightarrow> pydict \<Rightarrow> py_error + pydict" where
  "as_dict_loop self [] retval = Inr retval"
| "as_dict_loop self (k # ks) retval =
     (case StatsExtractorBase_getattr self k of
        Inl e \<Rightarrow> Inl e
      | Inr v \<Rightarrow> as_dict_loop self ks (AList.update k v retval))"

definition as_dict :: "stats_extractor \<Rightarrow> py_error + pydict" where
  "as_dict self = as_dict_loop self (extracted_attributes self) []"

text \<open>
  An entry of the list \<^verbatim>\<open>runs\<close>: the placeholder \<^verbatim>\<open>None\<close> of a missing file, a scanned
  extractor object, or a dictionary.
\<close>

datatype run = RunNone | RunExtractor stats_extractor | RunDict pydict

fun run_dict :: "run \<Rightarrow> pydict" where
  "run_dict (RunDict d) = d"
| "run_dict _ = []"

text \<open>A set of keys, as the list of its elements in the order they were added.\<close>

definition union_keys :: "string list \<Rightarrow> string list \<Rightarrow> string list" where
  "union_keys all_keys ks = all_keys @ filter (\<lambda>k. k \<notin> set all_keys) (remdups ks)"

text \<open>
  The first loop of \<^verbatim>\<open>group_multiple_runs\<close>, from index \<open>i\<close> on. It assigns to
  \<^verbatim>\<open>runs[i]\<close>, the caller's list, which is returned with the keys (or with the exception
  of \<^verbatim>\<open>as_dict\<close>, the list changed up to there).
\<close>

function group_normalise ::
  "nat \<Rightarrow> run list \<Rightarrow> string list \<Rightarrow> run list \<times> (py_error + string list)" where
  "group_normalise i runs all_keys =
     (if i < length runs then
        (case runs ! i of
           RunNone \<Rightarrow>
             group_normalise (Suc i) (runs[i := RunDict []]) (union_keys all_keys [])
         | RunExtractor e \<Rightarrow>
             (case as_dict e of
                Inl err \<Rightarrow> (runs, Inl err)
              | Inr d \<Rightarrow>
                  group_normalise (Suc i) (runs[i := RunDict d]) (union_keys all_keys (map fst d)))
         | RunDict d \<Rightarrow>
             group_normalise (Suc i) runs (union_keys all_keys (map fst d)))
      else (runs, Inr all_keys))"
  by pat_completeness auto
termination
  by (relation "measure (\<lambda>(i, runs, all_keys). length runs - i)") auto

text \<open>
  \<^verbatim>\<open>set(xs)\<close>: a list is unhashable (\<^verbatim>\<open>TypeError\<close>), an element equal to one
  already in the set is not added.
\<close>

fun py_hashable :: "pyval \<Rightarrow> bool"
  and py_hashable_list :: "pyval list \<Rightarrow> bool" where
  "py_hashable (PList _) = False"
| "py_hashable (PTuple xs) = py_hashable_list xs"
| "py_hashable _ = True"
| "py_hashable_list [] = True"
| "py_hashable_list (x # xs) = (py_hashable x \<and> py_hashable_list xs)"

definition py_set_add :: "pyval list \<Rightarrow> pyval \<Rightarrow> pyval list" where
  "py_set_add s x = (if list_ex (\<lambda>y. py_eq y x) s then s else s @ [x])"

definition py_set :: "pyval list \<Rightarrow> py_error + pyval list" where
  "py_set xs =
     (if py_hashable_list xs then Inr (foldl py_set_add [] xs) else Inl TypeError)"

text \<open>
  The second loop of \<^verbatim>\<open>group_multiple_runs\<close>, over the keys; \<open>runs\<close> are the
  dictionaries the first loop left in the list.
\<close>

fun group_keys ::
  "string option \<Rightarrow> pydict list \<Rightarrow> string list \<Rightarrow> pydict \<Rightarrow> py_error + pydict" where
  "group_keys group_by_key runs [] retval = Inr retval"
| "group_keys group_by_key runs (key # rest) retval =
     (if Some key = group_by_key then
        (case py_set (List.map_filter (\<lambda>r. map_of r key) runs) of
           Inl e \<Rightarrow> Inl e
         | Inr group_by_values \<Rightarrow>
             if length group_by_values \<noteq> 1 then Inl AssertionError
             else group_keys group_by_key runs rest
                    (AList.update key (hd group_by_values) retval))
      else
        group_keys group_by_key runs rest
          (AList.update key
             (PList (map (\<lambda>r. case map_of r key of None \<Rightarrow> PNone | Some v \<Rightarrow> v) runs))
             retval))"

text \<open>
  \<^verbatim>\<open>StatsExtractorBase.group_multiple_runs\<close>: the caller's list as the call leaves it,
  and the dictionary returned or the exception raised.
\<close>

definition group_multiple_runs ::
  "string option \<Rightarrow> run list \<Rightarrow> run list \<times> (py_error + pydict)" where
  "group_multiple_runs group_by_key runs =
     (case group_normalise 0 runs [] of
        (runs1, Inl e) \<Rightarrow> (runs1, Inl e)
      | (runs1, Inr all_keys) \<Rightarrow>
          (runs1, group_keys group_by_key (map run_dict runs1) all_keys []))"

text \<open>An extractor object for examples: one extractor \<^verbatim>\<open>name\<close> and a computed attribute.\<close>

definition demo_stats :: "pyval \<Rightarrow> stats_extractor" where
  "demo_stats v =
     \<lparr>extractors = [(''name'', \<lparr>ex_value = v, num_of_matches = 1, policy = POLICY_KEEP_LAST\<rparr>)],
      extracted_attributes = [''name'', ''size''],
      getters = [(''size'', PInt 7)]\<rparr>"

section \<open>Delta annotation and footer statistics (extractor.py)\<close>

text \<open>
  \<^verbatim>\<open>add_deltas_to_grouped_runs\<close>. The body of its inner loop, for the value under one
  key: a value that is not a list is left alone, \<^verbatim>\<open>[0]\<close> of an empty list raises, and
  every item after the first is wrapped with its delta against the first.
\<close>

fun with_deltas :: "pyval \<Rightarrow> pyval list \<Rightarrow> py_error + pyval list" where
  "with_deltas ref_val [] = Inr []"
| "with_deltas ref_val (item # items) =
     (case get_delta_percent ref_val item of
        Inl e \<Rightarrow> Inl e
      | Inr d \<Rightarrow>
          (case with_deltas ref_val items of
             Inl e \<Rightarrow> Inl e
           | Inr ws \<Rightarrow> Inr (PWithDelta item d # ws)))"

fun add_deltas_value :: "pyval \<Rightarrow> py_error + pyval" where
  "add_deltas_value (PList []) = Inl IndexError"
| "add_deltas_value (PList (ref_val # items)) =
     (case with_deltas ref_val items of
        Inl e \<Rightarrow> Inl e
      | Inr ws \<Rightarrow> Inr (PList (ref_val # ws)))"
| "add_deltas_value v = Inr v"

text \<open>The loop over the keys of one group, and the loop over the groups.\<close>

fun add_deltas_group :: "pydict \<Rightarrow> py_error + pydict" where
  "add_deltas_group [] = Inr []"
| "add_deltas_group ((k, v) # rest) =
     (case add_deltas_value v of
        Inl e \<Rightarrow> Inl e
      | Inr v1 \<Rightarrow>
          (case add_deltas_group rest of
             Inl e \<Rightarrow> Inl e
           | Inr rest1 \<Rightarrow> Inr ((k, v1) # rest1)))"

fun add_deltas_to_grouped_runs :: "pydict list \<Rightarrow> py_error + pydict list" where
  "add_deltas_to_grouped_runs [] = Inr []"
| "add_deltas_to_grouped_runs (g # gs) =
     (case add_deltas_group g of
        Inl e \<Rightarrow> Inl e
      | Inr g1 \<Rightarrow>
          (case add_deltas_to_grouped_runs gs of
             Inl e \<Rightarrow> Inl e
           | Inr gs1 \<Rightarrow> Inr (g1 # gs1)))"

definition allowed_types :: "py_type list" where
  "allowed_types = [Ty_timedelta, Ty_float, Ty_int]"

text \<open>
  \<^verbatim>\<open>ExpandBinaryAction.__call__\<close>, in three functions: the call itself (which unwraps
  both operands with \<^verbatim>\<open>val_of\<close>), its body on the unwrapped operands, and the list
  comprehension \<^verbatim>\<open>[self(l[i], r[i]) for i in xrange(0, len(r))]\<close>, where \<^verbatim>\<open>l[i]\<close>
  raises beyond the end of \<^verbatim>\<open>l\<close>.
\<close>

lemma size_val_of: "size (val_of x) \<le> size x"
  by (cases x) simp_all

function ExpandBinaryAction ::
    "(pyval \<Rightarrow> pyval \<Rightarrow> py_error + pyval) \<Rightarrow> pyval \<Rightarrow> pyval \<Rightarrow> py_error + pyval"
  and expand_binary_body ::
    "(pyval \<Rightarrow> pyval \<Rightarrow> py_error + pyval) \<Rightarrow> pyval \<Rightarrow> pyval \<Rightarrow> py_error + pyval"
  and expand_binary_items ::
    "(pyval \<Rightarrow> pyval \<Rightarrow> py_error + pyval) \<Rightarrow> pyval list \<Rightarrow> pyval list \<Rightarrow> py_error + pyval list"
  where
  "ExpandBinaryAction action l r = expand_binary_body action (val_of l) (val_of r)"
| "expand_binary_body action l r =
     (if type_of l \<noteq> type_of r then Inr PNone
      else case (l, r) of
        (PTuple ls, PTuple rs) \<Rightarrow>
          (case (if length ls < length rs then expand_binary_items action rs ls
                 else expand_binary_items action ls rs) of
             Inl e \<Rightarrow> Inl e
           | Inr vs \<Rightarrow> Inr (PTuple vs))
      | (PList ls, PList rs) \<Rightarrow>
          (case (if length ls < length rs then expand_binary_items action rs ls
                 else expand_binary_items action ls rs) of
             Inl e \<Rightarrow> Inl e
           | Inr vs \<Rightarrow> Inr (PList vs))
      | _ \<Rightarrow> if type_of l \<notin> set allowed_types then Inr PNone else action l r)"
| "expand_binary_items action ls [] = Inr []"
| "expand_binary_items action [] (y # ys) = Inl IndexError"
| "expand_binary_items action (x # xs) (y # ys) =
     (case ExpandBinaryAction action x y of
        Inl e \<Rightarrow> Inl e
      | Inr v \<Rightarrow>
          (case expand_binary_items action xs ys of
             Inl e \<Rightarrow> Inl e
           | Inr vs \<Rightarrow> Inr (v # vs)))"
  by pat_completeness auto
termination
  by (relation "measure (\<lambda>a. case a of
        Inl (action, l, r) \<Rightarrow> 3 * (size l + size r) + 2
      | Inr (Inl (action, l, r)) \<Rightarrow> 3 * (size l + size r) + 1
      | Inr (Inr (action, ls, rs)) \<Rightarrow> 3 * (size_list size ls + size_list size rs))")
    (auto simp: le_imp_less_Suc add_le_mono size_val_of)

declare ExpandBinaryAction.simps [simp del] expand_binary_body.simps [simp del]

text \<open>\<^verbatim>\<open>ExpandUnaryAction.__call__\<close>, in the same three parts.\<close>

function ExpandUnaryAction :: "(pyval \<Rightarrow> py_error + pyval) \<Rightarrow> pyval \<Rightarrow> py_error + pyval"
  and expand_unary_body :: "(pyval \<Rightarrow> py_error + pyval) \<Rightarrow> pyval \<Rightarrow> py_error + pyval"
  and expand_unary_items :: "(pyval \<Rightarrow> py_error + pyval) \<Rightarrow> pyval list \<Rightarrow> py_error + pyval list"
  where
  "ExpandUnaryAction action x = expand_unary_body action (val_of x)"
| "expand_unary_body action x =
     (case x of
        PTuple xs \<Rightarrow>
          (case expand_unary_items action xs of Inl e \<Rightarrow> Inl e | Inr vs \<Rightarrow> Inr (PTuple vs))
      | PList xs \<Rightarrow>
          (case expand_unary_items action xs of Inl e \<Rightarrow> Inl e | Inr vs \<Rightarrow> Inr (PList vs))
      | _ \<Rightarrow> if type_of x \<notin> set allowed_types then Inr PNone else action x)"
| "expand_unary_items action [] = Inr []"
| "expand_unary_items action (y # ys) =
     (case ExpandUnaryAction action y of
        Inl e \<Rightarrow> Inl e
      | Inr v \<Rightarrow>
          (case expand_unary_items action ys of
             Inl e \<Rightarrow> Inl e
           | Inr vs \<Rightarrow> Inr (v # vs)))"
  by pat_completeness auto
termination
  by (relation "measure (\<lambda>a. case a of
        Inl (action, x) \<Rightarrow> 3 * size x + 2
      | Inr (Inl (action, x)) \<Rightarrow> 3 * size x + 1
      | Inr (Inr (action, xs)) \<Rightarrow> 3 * size_list size xs)")
    (auto simp: le_imp_less_Suc size_val_of)

declare ExpandUnaryAction.simps [simp del] expand_unary_body.simps [simp del]

text \<open>
  The actions of \<^verbatim>\<open>compute_footer_from_grouped_runs\<close>. \<^verbatim>\<open>ExpandBinaryAction\<close> calls an
  action on two values of one type among \<^verbatim>\<open>timedelta\<close>, \<^verbatim>\<open>float\<close> and \<^verbatim>\<open>int\<close> only;
  \<^verbatim>\<open>max(s, t)\<close> is \<^verbatim>\<open>t\<close> when \<^verbatim>\<open>t > s\<close> and \<^verbatim>\<open>s\<close> otherwise, and is written for these
  types (the ordering of other values is never asked for).
\<close>

definition sum_action :: "pyval \<Rightarrow> pyval \<Rightarrow> py_error + pyval" where
  "sum_action s t = py_add s t"

definition max_action :: "pyval \<Rightarrow> pyval \<Rightarrow> py_error + pyval" where
  "max_action s t =
     (case (s, t) of
        (PInt a, PInt b) \<Rightarrow> Inr (if b > a then t else s)
      | (PFloat a, PFloat b) \<Rightarrow> Inr (if f_gt b a then t else s)
      | (PTimedelta a, PTimedelta b) \<Rightarrow> Inr (if b > a then t else s)
      | _ \<Rightarrow> Inl TypeError)"

text \<open>\<^verbatim>\<open>divide_value\<close>, with \<open>n\<close> for \<^verbatim>\<open>len(groups)\<close>.\<close>

definition divide_value :: "nat \<Rightarrow> pyval \<Rightarrow> py_error + pyval" where
  "divide_value n x =
     (case x of
        PTimedelta us \<Rightarrow>
          (case f_div (total_seconds us) (float_of_int (int n)) of
             Inl e \<Rightarrow> Inl e
           | Inr q \<Rightarrow> timedelta_seconds q)
      | PInt i \<Rightarrow>
          (case f_div (float_of_int i) (float_of_int (int n)) of
             Inl e \<Rightarrow> Inl e
           | Inr q \<Rightarrow> (case int_of_float q of Inl e \<Rightarrow> Inl e | Inr k \<Rightarrow> Inr (PInt k)))
      | PFloat f \<Rightarrow>
          (case f_div f (float_of_int (int n)) of
             Inl e \<Rightarrow> Inl e
           | Inr q \<Rightarrow> Inr (PFloat q))
      | _ \<Rightarrow> Inl TypeError)"

definition custom_sum :: "pyval \<Rightarrow> pyval \<Rightarrow> py_error + pyval" where
  "custom_sum = ExpandBinaryAction sum_action"

definition custom_max :: "pyval \<Rightarrow> pyval \<Rightarrow> py_error + pyval" where
  "custom_max = ExpandBinaryAction max_action"

definition custom_divide :: "nat \<Rightarrow> pyval \<Rightarrow> py_error + pyval" where
  "custom_divide n = ExpandUnaryAction (divide_value n)"

text \<open>
  The loops of \<^verbatim>\<open>compute_footer_from_grouped_runs\<close>: over the fields of one group,
  over the groups, and the division of every sum.
\<close>

fun footer_fields :: "pydict \<Rightarrow> pydict \<times> pydict \<Rightarrow> py_error + pydict \<times> pydict" where
  "footer_fields [] (sums_acc, maxes) = Inr (sums_acc, maxes)"
| "footer_fields ((field, v) # rest) (sums_acc, maxes) =
     (case (case map_of sums_acc field of None \<Rightarrow> Inr v | Some s \<Rightarrow> custom_sum s v) of
        Inl e \<Rightarrow> Inl e
      | Inr s1 \<Rightarrow>
          (case (case map_of maxes field of None \<Rightarrow> Inr v | Some m \<Rightarrow> custom_max m v) of
             Inl e \<Rightarrow> Inl e
           | Inr m1 \<Rightarrow>
               footer_fields rest (AList.update field s1 sums_acc, AList.update field m1 maxes)))"

fun footer_groups :: "pydict list \<Rightarrow> pydict \<times> pydict \<Rightarrow> py_error + pydict \<times> pydict" where
  "footer_groups [] acc = Inr acc"
| "footer_groups (grp # rest) acc =
     (case footer_fields grp acc of
        Inl e \<Rightarrow> Inl e
      | Inr acc1 \<Rightarrow> footer_groups rest acc1)"

fun footer_divide :: "nat \<Rightarrow> pydict \<Rightarrow> py_error + pydict" where
  "footer_divide n [] = Inr []"
| "footer_divide n ((field, s) # rest) =
     (case custom_divide n s of
        Inl e \<Rightarrow> Inl e
      | Inr a \<Rightarrow>
          (case footer_divide n rest of
             Inl e \<Rightarrow> Inl e
           | Inr rest1 \<Rightarrow> Inr ((field, a) # rest1)))"

text \<open>
  \<^verbatim>\<open>StatsExtractorBase.compute_footer_from_grouped_runs\<close>; the dictionary returned is
  \<^verbatim>\<open>{'max': maxes, 'avg': sums}\<close> (\<^verbatim>\<open>sums\<close> is named \<open>sums_acc\<close> here).
\<close>

definition compute_footer_from_grouped_runs ::
  "pydict list \<Rightarrow> bool \<Rightarrow> py_error + (string \<times> pydict) list" where
  "compute_footer_from_grouped_runs groups with_delta =
     (case footer_groups groups ([], []) of
        Inl e \<Rightarrow> Inl e
      | Inr (sums_acc, maxes) \<Rightarrow>
          (case footer_divide (length groups) sums_acc of
             Inl e \<Rightarrow> Inl e
           | Inr avgs \<Rightarrow>
               if with_delta then
                 (case add_deltas_to_grouped_runs [avgs, maxes] of
                    Inl e \<Rightarrow> Inl e
                  | Inr gs \<Rightarrow> Inr [(''max'', gs ! 1), (''avg'', gs ! 0)])
               else Inr [(''max'', maxes), (''avg'', avgs)]))"

section \<open>The table formatters (output_module.py)\<close>

text \<open>
  A column attribute is a Python value or a function (the attribute \<^verbatim>\<open>formatter\<close>).
  The formatter object carries the fields of \<^verbatim>\<open>TableFormatterBase\<close>,
  \<^verbatim>\<open>TableFilteredBase\<close> and \<^verbatim>\<open>HTMLSheetFormatter\<close>; a private attribute \<^verbatim>\<open>_x\<close> is
  the field \<open>p_x\<close>, and \<open>default_column_descriptor\<close> is what the classmethod
  \<^verbatim>\<open>get_default_column_descriptor\<close> of the object's class returns.
\<close>

datatype attr = AVal pyval | AFun "pyval \<Rightarrow> pyval"

record formatter =
  table :: "pydict list"
  footer :: "pydict list"
  footer_names :: "string list"
  header :: "string list"
  p_all_keys :: "string list"
  p_col_has_delta :: "(string \<times> bool) list"
  p_num_of_runs_in_group :: "int list"
  p_num_of_runs_in_cell :: "(string \<times> int) list list"
  column_descriptors :: "(string \<times> (string \<times> attr) list) list"
  preferred_order :: "string list"
  default_column_descriptor :: "(string \<times> attr) list"
  p_indent :: int
  p_stand_out_class_cache :: "((int \<times> int \<times> int) \<times> string option) list"

text \<open>\<^verbatim>\<open>isinstance(val, withdelta)\<close>.\<close>

fun is_withdelta :: "pyval \<Rightarrow> bool" where
  "is_withdelta (PWithDelta _ _) = True"
| "is_withdelta _ = False"

text \<open>
  \<^verbatim>\<open>TableFormatterBase._get_extra_info\<close>. The body of the loop over the keys of a
  group, for the key \<open>k\<close> with its value \<open>v\<close>: the subscript \<^verbatim>\<open>[-1]\<close> is the last
  element of the two lists, which the loop over the groups has appended.
\<close>

definition extra_info_key :: "string \<times> pyval \<Rightarrow> formatter \<Rightarrow> formatter" where
  "extra_info_key kv self =
     (let k = fst kv; v = snd kv;
          has0 = (if map_of (p_col_has_delta self) k = None
                  then AList.update k False (p_col_has_delta self)
                  else p_col_has_delta self);
          has1 = (case v of
                    PList vals \<Rightarrow>
                      if list_ex is_withdelta vals then AList.update k True has0 else has0
                  | _ \<Rightarrow> has0);
          runs_in_cell = (case v of PList vals \<Rightarrow> int (length vals) | _ \<Rightarrow> - 1);
          cells = p_num_of_runs_in_cell self;
          cells1 = cells[length cells - 1 := AList.update k runs_in_cell (last cells)];
          counts = p_num_of_runs_in_group self;
          counts1 = (if runs_in_cell > last counts
                     then counts[length counts - 1 := runs_in_cell] else counts)
      in self\<lparr>p_col_has_delta := has1, p_num_of_runs_in_cell := cells1,
               p_num_of_runs_in_group := counts1\<rparr>)"

fun extra_info_keys :: "pydict \<Rightarrow> formatter \<Rightarrow> formatter" where
  "extra_info_keys [] self = self"
| "extra_info_keys (kv # rest) self = extra_info_keys rest (extra_info_key kv self)"

fun extra_info_groups :: "pydict list \<Rightarrow> formatter \<Rightarrow> formatter" where
  "extra_info_groups [] self = self"
| "extra_info_groups (grp # rest) self =
     extra_info_groups rest
       (extra_info_keys grp
          (self\<lparr>p_all_keys := union_keys (p_all_keys self) (map fst grp),
                 p_num_of_runs_in_cell := p_num_of_runs_in_cell self @ [[]],
                 p_num_of_runs_in_group := p_num_of_runs_in_group self @ [- 1]\<rparr>))"

definition get_extra_info :: "formatter \<Rightarrow> formatter" where
  "get_extra_info self =
     extra_info_groups (table self @ footer self)
       (self\<lparr>p_all_keys := [], p_col_has_delta := [],
              p_num_of_runs_in_group := [], p_num_of_runs_in_cell := []\<rparr>)"

text \<open>
  The constructors. \<^verbatim>\<open>TableFormatterBase.__init__\<close> computes the footer and the extra
  information; the footer groups are listed in the order of the dictionary
  \<^verbatim>\<open>{'max': ..., 'avg': ...}\<close>. \<^verbatim>\<open>TableFilteredBase.__init__\<close> starts with no column
  descriptor and no preferred order, \<^verbatim>\<open>HTMLSheetFormatter.__init__\<close> with an empty cache
  and no indentation (its title and run names are not part of the table walk).
\<close>

definition TableFilteredBase_default_column_descriptor :: "(string \<times> attr) list" where
  "TableFilteredBase_default_column_descriptor =
     [(''toggle_off'', AVal (PBool False)), (''toggle_delta_off'', AVal (PBool False))]"

definition HTMLSheetFormatter_default_column_descriptor :: "(string \<times> attr) list" where
  "HTMLSheetFormatter_default_column_descriptor =
     TableFilteredBase_default_column_descriptor @
     [(''stand_out'', AVal (PBool False)), (''formatter'', AVal PNone),
      (''bigger_is_better'', AVal (PBool False))]"

definition HTMLSheetFormatter_init :: "pydict list \<Rightarrow> bool \<Rightarrow> py_error + formatter" where
  "HTMLSheetFormatter_init grouped_runs footer_with_delta =
     (case compute_footer_from_grouped_runs grouped_runs footer_with_delta of
        Inl e \<Rightarrow> Inl e
      | Inr candidate_footer \<Rightarrow>
          Inr (get_extra_info
                 \<lparr>table = grouped_runs,
                  footer = map snd candidate_footer,
                  footer_names = map fst candidate_footer,
                  header = [],
                  p_all_keys = [],
                  p_col_has_delta = [],
                  p_num_of_runs_in_group = [],
                  p_num_of_runs_in_cell = [],
                  column_descriptors = [],
                  preferred_order = [],
                  default_column_descriptor = HTMLSheetFormatter_default_column_descriptor,
                  p_indent = 0,
                  p_stand_out_class_cache = []\<rparr>))"

text \<open>\<^verbatim>\<open>TableFilteredBase.set_column_attribute\<close> and \<^verbatim>\<open>get_column_attribute\<close>.\<close>

definition set_column_attribute :: "formatter \<Rightarrow> string \<Rightarrow> string \<Rightarrow> attr \<Rightarrow> formatter" where
  "set_column_attribute self col attrib_name v =
     (let ds = (if map_of (column_descriptors self) col = None
                then AList.update col [] (column_descriptors self)
                else column_descriptors self)
      in self\<lparr>column_descriptors :=
                 AList.update col
                   (AList.update attrib_name v (case map_of ds col of Some d \<Rightarrow> d | None \<Rightarrow> []))
                   ds\<rparr>)"

definition get_column_attribute :: "formatter \<Rightarrow> string option \<Rightarrow> string \<Rightarrow> attr \<Rightarrow> attr" where
  "get_column_attribute self col attrib_name dflt =
     (let descriptor =
            (case col of
               None \<Rightarrow> default_column_descriptor self
             | Some c \<Rightarrow>
                 (case map_of (column_descriptors self) c of
                    Some d \<Rightarrow> d
                  | None \<Rightarrow> default_column_descriptor self))
      in case map_of descriptor attrib_name of None \<Rightarrow> dflt | Some a \<Rightarrow> a)"

text \<open>The truth value of a Python value, and of an attribute (a function is true).\<close>

fun py_truthy :: "pyval \<Rightarrow> bool" where
  "py_truthy PNone = False"
| "py_truthy (PBool b) = b"
| "py_truthy (PInt i) = (i \<noteq> 0)"
| "py_truthy (PFloat f) = (f \<noteq> Fin 0)"
| "py_truthy (PStr s) = (s \<noteq> [])"
| "py_truthy (PUnicode s) = (s \<noteq> [])"
| "py_truthy (PTimedelta us) = (us \<noteq> 0)"
| "py_truthy (PList xs) = (xs \<noteq> [])"
| "py_truthy (PTuple xs) = (xs \<noteq> [])"
| "py_truthy (PWithDelta _ _) = True"

fun attr_truthy :: "attr \<Rightarrow> bool" where
  "attr_truthy (AVal v) = py_truthy v"
| "attr_truthy (AFun _) = True"

text \<open>
  \<^verbatim>\<open>column_has_delta\<close>: of \<^verbatim>\<open>TableFormatterBase\<close> (a subscript that raises
  \<^verbatim>\<open>KeyError\<close> on an unknown column, and on \<^verbatim>\<open>None\<close>) and of \<^verbatim>\<open>TableFilteredBase\<close>.
\<close>

definition TableFormatterBase_column_has_delta ::
  "formatter \<Rightarrow> string option \<Rightarrow> py_error + bool" where
  "TableFormatterBase_column_has_delta self col =
     (case col of
        None \<Rightarrow> Inl KeyError
      | Some c \<Rightarrow>
          (case map_of (p_col_has_delta self) c of None \<Rightarrow> Inl KeyError | Some b \<Rightarrow> Inr b))"

definition column_has_delta :: "formatter \<Rightarrow> string option \<Rightarrow> py_error + bool" where
  "column_has_delta self col =
     (if attr_truthy (get_column_attribute self col ''toggle_delta_off'' (AVal (PBool False)))
      then Inr False
      else TableFormatterBase_column_has_delta self col)"


subsection \<open>The location and the table walk\<close>


definition LOC_IN_CELL_DELTA :: string where "LOC_IN_CELL_DELTA = ''LOC_IN_CELL_DELTA''"







subsection \<open>The HTML visitor\<close>























definition demo_table :: "pydict list" where
  "demo_table =
     [[(''n'', PStr ''A<B''), (''x'', PList [PInt 5, PWithDelta (PInt 6) (PFloat (Fin (1 / 5)))])]]"

definition demo_formatter :: formatter where
  "demo_formatter =
     \<lparr>table = demo_table,
      footer = [[(''n'', PStr ''A<B''),
                 (''x'', PList [PInt 5, PWithDelta (PWithDelta (PInt 6) (PFloat (Fin (1 / 5)))) PNone])],
                [(''n'', PNone),
                 (''x'', PList [PInt 5, PWithDelta (PInt 6) (PFloat (Fin (1 / 5)))])]],
      footer_names = [''max'', ''avg''],
      header = [''n'', ''x''],
      p_all_keys = [''n'', ''x''],
      p_col_has_delta = [(''n'', False), (''x'', True)],
      p_num_of_runs_in_group = [2, 2, 2],
      p_num_of_runs_in_cell =
        [[(''n'', - 1), (''x'', 2)], [(''n'', - 1), (''x'', 2)], [(''n'', - 1), (''x'', 2)]],
      column_descriptors = [],
      preferred_order = [],
      default_column_descriptor = HTMLSheetFormatter_default_column_descriptor,
      p_indent = 0,
      p_stand_out_class_cache = []\<rparr>"

text \<open>
  The formatter that \<^verbatim>\<open>HTMLSheetFormatter\<close> builds from one group whose second run has
  no value for \<^verbatim>\<open>x\<close>, after the delta annotation.
\<close>

definition missing_run_formatter :: formatter where
  "missing_run_formatter =
     \<lparr>table = [[(''x'', PList [PInt 5, PWithDelta PNone PNone])]],
      footer = [[(''x'', PList [PInt 5, PWithDelta (PWithDelta PNone PNone) PNone])],
                [(''x'', PList [PInt 5, PWithDelta PNone PNone])]],
      footer_names = [''max'', ''avg''],
      header = [],
      p_all_keys = [''x''],
      p_col_has_delta = [(''x'', True)],
      p_num_of_runs_in_group = [2, 2, 2],
      p_num_of_runs_in_cell = [[(''x'', 2)], [(''x'', 2)], [(''x'', 2)]],
      column_descriptors = [],
      preferred_order = [],
      default_column_descriptor = HTMLSheetFormatter_default_column_descriptor,
      p_indent = 0,
      p_stand_out_class_cache = []\<rparr>"

section \<open>Properties of the extraction engine\<close>

lemma process_line_skip:
  "extr l = Inr PNone \<Longrightarrow> process_line extr s l = Inr s"
  by (simp add: process_line_def)

lemma process_line_candidate:
  "extr l = Inr c \<Longrightarrow> process_line extr s l = process_line (\<lambda>_. Inr c) s []"
  by (simp add: process_line_def)

lemma scan_lines_accept_all:
  "map extr lines = map Inr cs \<Longrightarrow>
   scan_lines extr s lines = accept_all s (filter (\<lambda>c. c \<noteq> PNone) cs)"
proof (induction lines arbitrary: s cs)
  case Nil
  then show ?case by simp
next
  case (Cons l ls)
  then obtain c cs' where cs: "cs = c # cs'" "extr l = Inr c" "map extr ls = map Inr cs'"
    by (cases cs) auto
  show ?case
  proof (cases "c = PNone")
    case True
    then show ?thesis using Cons.IH[OF cs(3)] cs by (simp add: process_line_skip)
  next
    case False
    then show ?thesis using Cons.IH[OF cs(3)] cs
      by (simp add: process_line_candidate[of extr l c] split: sum.splits)
  qed
qed

lemma scan_num_of_matches:
  "map extr lines = map Inr cs \<Longrightarrow> scan_lines extr s lines = Inr s' \<Longrightarrow>
   num_of_matches s' = num_of_matches s + int (length (filter (\<lambda>c. c \<noteq> PNone) cs))
   \<and> policy s' = policy s"
proof (induction lines arbitrary: s cs)
  case Nil
  then show ?case by simp
next
  case (Cons l ls)
  then obtain c cs' where cs: "cs = c # cs'" "extr l = Inr c" "map extr ls = map Inr cs'"
    by (cases cs) auto
  from Cons.prems(2) obtain s1 where s1: "process_line extr s l = Inr s1"
    "scan_lines extr s1 ls = Inr s'"
    by (auto split: sum.splits)
  have "num_of_matches s1 = num_of_matches s + (if c \<noteq> PNone then 1 else 0) \<and> policy s1 = policy s"
    using s1(1) cs(2)
    by (auto simp: process_line_def Let_def split: if_splits sum.splits)
  with Cons.IH[OF cs(3) s1(2)] cs(1) show ?case by simp
qed

lemma py_iadd_not_None: "py_iadd x y = Inr v \<Longrightarrow> v \<noteq> PNone"
  by (auto simp: py_iadd_def py_add_def py_add_num_def
      split: pyval.splits option.splits sum.splits if_splits)

lemma policy_names_distinct:
  "POLICY_APPEND \<noteq> POLICY_KEEP_FIRST" "POLICY_APPEND \<noteq> POLICY_KEEP_LAST"
  "POLICY_APPEND \<noteq> POLICY_SUM" "POLICY_KEEP_FIRST \<noteq> POLICY_KEEP_LAST"
  "POLICY_KEEP_FIRST \<noteq> POLICY_SUM" "POLICY_KEEP_LAST \<noteq> POLICY_SUM"
  by (simp_all add: POLICY_APPEND_def POLICY_KEEP_FIRST_def POLICY_KEEP_LAST_def POLICY_SUM_def)

lemma process_line_returns:
  assumes "extr l = Inr c" "returns_without_sum s"
  shows "\<exists>s1. process_line extr s l = Inr s1 \<and> returns_without_sum s1"
  using assms
  by (auto simp: process_line_def Let_def returns_without_sum_def py_iadd_def
      policy_names_distinct policy_names_distinct[symmetric])

lemma scan_lines_returns:
  "map extr lines = map Inr cs \<Longrightarrow> returns_without_sum s \<Longrightarrow>
   \<exists>s'. scan_lines extr s lines = Inr s'"
proof (induction lines arbitrary: s cs)
  case Nil
  then show ?case by simp
next
  case (Cons l ls)
  then obtain c cs' where cs: "cs = c # cs'" "extr l = Inr c" "map extr ls = map Inr cs'"
    by (cases cs) auto
  from process_line_returns[of extr l c s] cs(2) Cons.prems(2) obtain s1
    where "process_line extr s l = Inr s1" "returns_without_sum s1" by blast
  with Cons.IH[OF cs(3)] show ?case by simp
qed

text \<open>
  Claim C4. Let \<open>cs\<close> be what \<^verbatim>\<open>extract_value_from_line\<close> returns on the lines of
  a scan, and the accepted matches those that are not \<^verbatim>\<open>None\<close>. With no accepted match
  a fresh extractor ends with \<^verbatim>\<open>value = None\<close> and \<^verbatim>\<open>num_of_matches = 0\<close>. With the
  accepted matches \<open>[a, b, c]\<close>, KEEP_FIRST ends with \<open>a\<close>, KEEP_LAST with \<open>c\<close>,
  APPEND with the list \<open>[a, b, c]\<close>, and SUM with \<open>(a + b) + c\<close> when these additions
  are defined. Under every policy but SUM the scan returns, and whenever it returns
  \<^verbatim>\<open>num_of_matches\<close> is the number of accepted matches.
\<close>

theorem extractor_policies:
  assumes "map extract_value_from_line lines = map Inr cs"
  shows
    "(filter (\<lambda>c. c \<noteq> PNone) cs = [] \<longrightarrow>
        scan_lines extract_value_from_line (ExtractorBase_init p) lines
          = Inr \<lparr>ex_value = PNone, num_of_matches = 0, policy = p\<rparr>)
     \<and> (filter (\<lambda>c. c \<noteq> PNone) cs = [a, b, c] \<longrightarrow>
          scan_lines extract_value_from_line (ExtractorBase_init POLICY_KEEP_FIRST) lines
            = Inr \<lparr>ex_value = a, num_of_matches = 3, policy = POLICY_KEEP_FIRST\<rparr>
        \<and> scan_lines extract_value_from_line (ExtractorBase_init POLICY_KEEP_LAST) lines
            = Inr \<lparr>ex_value = c, num_of_matches = 3, policy = POLICY_KEEP_LAST\<rparr>
        \<and> scan_lines extract_value_from_line (ExtractorBase_init POLICY_APPEND) lines
            = Inr \<lparr>ex_value = PList [a, b, c], num_of_matches = 3, policy = POLICY_APPEND\<rparr>
        \<and> (\<forall>ab abc. py_iadd a b = Inr ab \<longrightarrow> py_iadd ab c = Inr abc \<longrightarrow>
            scan_lines extract_value_from_line (ExtractorBase_init POLICY_SUM) lines
              = Inr \<lparr>ex_value = abc, num_of_matches = 3, policy = POLICY_SUM\<rparr>))
     \<and> (p \<noteq> POLICY_SUM \<longrightarrow>
          (\<exists>s'. scan_lines extract_value_from_line (ExtractorBase_init p) lines = Inr s'))
     \<and> (\<forall>s'. scan_lines extract_value_from_line (ExtractorBase_init p) lines = Inr s' \<longrightarrow>
          num_of_matches s' = int (length (filter (\<lambda>c. c \<noteq> PNone) cs)))"
proof (intro conjI impI allI)
  assume "filter (\<lambda>c. c \<noteq> PNone) cs = []"
  then show "scan_lines extract_value_from_line (ExtractorBase_init p) lines
          = Inr \<lparr>ex_value = PNone, num_of_matches = 0, policy = p\<rparr>"
    by (simp add: scan_lines_accept_all[OF assms] ExtractorBase_init_def)
next
  assume f: "filter (\<lambda>c. c \<noteq> PNone) cs = [a, b, c]"
  then have "a \<in> set (filter (\<lambda>c. c \<noteq> PNone) cs)" "b \<in> set (filter (\<lambda>c. c \<noteq> PNone) cs)"
    "c \<in> set (filter (\<lambda>c. c \<noteq> PNone) cs)" by simp_all
  then have ne: "a \<noteq> PNone" "b \<noteq> PNone" "c \<noteq> PNone" by simp_all
  show "scan_lines extract_value_from_line (ExtractorBase_init POLICY_KEEP_FIRST) lines
            = Inr \<lparr>ex_value = a, num_of_matches = 3, policy = POLICY_KEEP_FIRST\<rparr>"
    using ne
    by (simp add: scan_lines_accept_all[OF assms] f ExtractorBase_init_def process_line_def
        policy_names_distinct policy_names_distinct[symmetric])
  show "scan_lines extract_value_from_line (ExtractorBase_init POLICY_KEEP_LAST) lines
            = Inr \<lparr>ex_value = c, num_of_matches = 3, policy = POLICY_KEEP_LAST\<rparr>"
    using ne
    by (simp add: scan_lines_accept_all[OF assms] f ExtractorBase_init_def process_line_def
        policy_names_distinct policy_names_distinct[symmetric])
  show "scan_lines extract_value_from_line (ExtractorBase_init POLICY_APPEND) lines
            = Inr \<lparr>ex_value = PList [a, b, c], num_of_matches = 3, policy = POLICY_APPEND\<rparr>"
    using ne
    by (simp add: scan_lines_accept_all[OF assms] f ExtractorBase_init_def process_line_def
        policy_names_distinct policy_names_distinct[symmetric] py_iadd_def)
  fix ab abc
  assume s: "py_iadd a b = Inr ab" "py_iadd ab c = Inr abc"
  from py_iadd_not_None[OF s(1)] have "ab \<noteq> PNone" .
  then show "scan_lines extract_value_from_line (ExtractorBase_init POLICY_SUM) lines
              = Inr \<lparr>ex_value = abc, num_of_matches = 3, policy = POLICY_SUM\<rparr>"
    using ne s
    by (simp add: scan_lines_accept_all[OF assms] f ExtractorBase_init_def process_line_def
        policy_names_distinct policy_names_distinct[symmetric])
next
  assume "p \<noteq> POLICY_SUM"
  then have "returns_without_sum (ExtractorBase_init p)"
    by (simp add: returns_without_sum_def ExtractorBase_init_def)
  from scan_lines_returns[OF assms this]
  show "\<exists>s'. scan_lines extract_value_from_line (ExtractorBase_init p) lines = Inr s'" .
next
  fix s'
  assume "scan_lines extract_value_from_line (ExtractorBase_init p) lines = Inr s'"
  from scan_num_of_matches[OF assms this]
  show "num_of_matches s' = int (length (filter (\<lambda>c. c \<noteq> PNone) cs))"
    by (simp add: ExtractorBase_init_def)
qed

theorem extractor_policies_witness:
  "map demo_extract [''a'', ''-'', ''bb'', ''ccc''] = map Inr [PInt 1, PNone, PInt 2, PInt 3]
   \<and> scan_lines demo_extract (ExtractorBase_init POLICY_KEEP_FIRST) [''a'', ''-'', ''bb'', ''ccc'']
       = Inr \<lparr>ex_value = PInt 1, num_of_matches = 3, policy = POLICY_KEEP_FIRST\<rparr>
   \<and> scan_lines demo_extract (ExtractorBase_init POLICY_KEEP_LAST) [''a'', ''-'', ''bb'', ''ccc'']
       = Inr \<lparr>ex_value = PInt 3, num_of_matches = 3, policy = POLICY_KEEP_LAST\<rparr>
   \<and> scan_lines demo_extract (ExtractorBase_init POLICY_APPEND) [''a'', ''-'', ''bb'', ''ccc'']
       = Inr \<lparr>ex_value = PList [PInt 1, PInt 2, PInt 3], num_of_matches = 3, policy = POLICY_APPEND\<rparr>
   \<and> scan_lines demo_extract (ExtractorBase_init POLICY_SUM) [''a'', ''-'', ''bb'', ''ccc'']
       = Inr \<lparr>ex_value = PInt 6, num_of_matches = 3, policy = POLICY_SUM\<rparr>
   \<and> scan_lines demo_extract (ExtractorBase_init POLICY_SUM) [''-'', ''-'']
       = Inr \<lparr>ex_value = PNone, num_of_matches = 0, policy = POLICY_SUM\<rparr>"
proof -
  have m: "map demo_extract [''a'', ''-'', ''bb'', ''ccc''] = map Inr [PInt 1, PNone, PInt 2, PInt 3]"
    by (simp add: demo_extract_def)
  have m0: "map demo_extract [''-'', ''-''] = map Inr [PNone, PNone]"
    by (simp add: demo_extract_def)
  have s: "py_iadd (PInt 1) (PInt 2) = Inr (PInt 3)" "py_iadd (PInt 3) (PInt 3) = Inr (PInt 6)"
    by (simp_all add: py_iadd_def py_add_def py_add_num_def)
  show ?thesis
    using extractor_policies[OF m, of POLICY_SUM "PInt 1" "PInt 2" "PInt 3"]
      extractor_policies[OF m0, of POLICY_SUM] m s
    by simp
qed

section \<open>Properties of the converters\<close>

text \<open>
  Claim C3 (the code departs from it). The byte-count converter raises on inputs the
  claim says it survives: on the empty string and on \<^verbatim>\<open>b\<close> (in either case) the
  subscript \<^verbatim>\<open>raw_value[-1]\<close> raises \<^verbatim>\<open>IndexError\<close>, whatever \<^verbatim>\<open>float\<close> would do, and a
  string that \<^verbatim>\<open>float\<close> rejects raises \<^verbatim>\<open>ValueError\<close>; the exception leaves
  \<^verbatim>\<open>process_line\<close> uncaught. The integer and float converters always return.
\<close>

theorem memory_converter_raises:
  "MemoryConverterExtractor_convert_raw_value py_float (PStr '''') = Inl IndexError
   \<and> MemoryConverterExtractor_convert_raw_value py_float (PStr ''b'') = Inl IndexError
   \<and> MemoryConverterExtractor_convert_raw_value py_float (PStr ''B'') = Inl IndexError
   \<and> MemoryConverterExtractor_convert_raw_value (\<lambda>_. None) (PStr ''abc'') = Inl ValueError
   \<and> process_line
        (ValueConverter_extract_value_from_line
           (MemoryConverterExtractor_convert_raw_value py_float) (\<lambda>_. Inr (PStr '''')))
        (ExtractorBase_init p) line = Inl IndexError
   \<and> (\<exists>v. IntConverterExtractor_convert_raw_value py_int raw = Inr v)
   \<and> (\<exists>v. FloatConverterExtractor_convert_raw_value py_float raw = Inr v)"
  by (simp add: MemoryConverterExtractor_convert_raw_value_def lower_char_def process_line_def
      ValueConverter_extract_value_from_line_def IntConverterExtractor_convert_raw_value_def
      FloatConverterExtractor_convert_raw_value_def split: option.splits)

section \<open>Properties of the pairwise delta\<close>


lemma f_div_finite: "a \<noteq> 0 \<Longrightarrow> f_div (Fin b) (Fin a) = Inr (Fin (b / a))"
  by simp

lemma f_div_defined: "x \<noteq> Fin 0 \<Longrightarrow> \<exists>q. f_div z x = Inr q"
  by (cases x; cases z) auto



lemma delta_ints:
  "get_delta_percent (PInt a) (PInt b) = Inr (PFloat (
        if a < 0 \<or> b < 0 then NaN
        else if a = b then Fin 0
        else if a = 0 then (if b > 0 then PosInf else NegInf)
        else Fin ((of_int b - of_int a) / of_int a)))"
  by (auto simp: get_delta_percent_def num_eq_def float_of_int_def f_sub_def)





text \<open>
  Claim C6 fails on the code: the delta of two different strings is not 0.0 but minus
  infinity (\<^verbatim>\<open>to_float\<close> sends both strings to 0.0, so the branch for a zero first
  operand is taken).
\<close>

theorem string_delta_counterexample:
  "get_delta_percent (PStr ''a'') (PStr ''b'') = Inr (PFloat NegInf)
   \<and> get_delta_percent (PStr ''a'') (PStr ''b'') \<noteq> Inr (PFloat (Fin 0))"
  by (simp add: get_delta_percent_def)

text \<open>
  Claim C6, amended. For two strings of the same string type the delta is 0.0 when they
  are equal and minus infinity when they differ.
\<close>

theorem string_delta:
  "get_delta_percent (PStr s1) (PStr s2) = Inr (PFloat (if s1 = s2 then Fin 0 else NegInf))
   \<and> get_delta_percent (PUnicode s1) (PUnicode s2) = Inr (PFloat (if s1 = s2 then Fin 0 else NegInf))"
  by (simp add: get_delta_percent_def)

section \<open>Properties of grouping\<close>

lemma group_normalise_list:
  assumes "\<forall>e. RunExtractor e \<in> set runs \<longrightarrow> (\<exists>d. as_dict e = Inr d)" "i \<le> length runs"
  shows "fst (group_normalise i runs ks) =
           take i runs @
           map (\<lambda>r. case r of
                  RunNone \<Rightarrow> RunDict []
                | RunExtractor e \<Rightarrow> (case as_dict e of Inr d \<Rightarrow> RunDict d | Inl _ \<Rightarrow> RunExtractor e)
                | RunDict d \<Rightarrow> RunDict d) (drop i runs)"
  using assms
proof (induction i runs ks rule: group_normalise.induct)
  case (1 i runs all_keys)
  let ?n = "\<lambda>r. case r of
                  RunNone \<Rightarrow> RunDict []
                | RunExtractor e \<Rightarrow> (case as_dict e of Inr d \<Rightarrow> RunDict d | Inl _ \<Rightarrow> RunExtractor e)
                | RunDict d \<Rightarrow> RunDict d"
  show ?case
  proof (cases "i < length runs")
    case False
    with "1.prems" show ?thesis by simp
  next
    case True
    then have dr: "drop i runs = runs ! i # drop (Suc i) runs"
      by (simp add: Cons_nth_drop_Suc)
    have keep: "\<forall>e. RunExtractor e \<in> set (runs[i := RunDict d]) \<longrightarrow> (\<exists>d. as_dict e = Inr d)" for d
      using "1.prems"(1) set_update_subset_insert[of runs i "RunDict d"] by auto
    show ?thesis
    proof (cases "runs ! i")
      case RunNone
      have "fst (group_normalise (Suc i) (runs[i := RunDict []]) (union_keys all_keys [])) =
            take (Suc i) (runs[i := RunDict []]) @ map ?n (drop (Suc i) (runs[i := RunDict []]))"
        using "1.IH"(1)[OF True RunNone keep] True by simp
      then show ?thesis using True RunNone dr
        by (simp add: take_Suc_conv_app_nth)
    next
      case (RunExtractor e)
      with True have "RunExtractor e \<in> set runs" by (metis nth_mem)
      with "1.prems"(1) obtain d where d: "as_dict e = Inr d" by blast
      have "fst (group_normalise (Suc i) (runs[i := RunDict d]) (union_keys all_keys (map fst d))) =
            take (Suc i) (runs[i := RunDict d]) @ map ?n (drop (Suc i) (runs[i := RunDict d]))"
        using "1.IH"(2)[OF True RunExtractor d keep] True by simp
      then show ?thesis using True RunExtractor d dr
        by (simp add: take_Suc_conv_app_nth)
    next
      case (RunDict d)
      have "fst (group_normalise (Suc i) runs (union_keys all_keys (map fst d))) =
            take (Suc i) runs @ map ?n (drop (Suc i) runs)"
        using "1.IH"(3)[OF True RunDict "1.prems"(1)] True by simp
      then show ?thesis using True RunDict dr
        by (simp add: take_Suc_conv_app_nth)
    qed
  qed
qed

text \<open>
  Claim C10. \<^verbatim>\<open>group_multiple_runs\<close> changes the list it is given: when no projection
  \<^verbatim>\<open>as_dict\<close> raises, the list has its length and at every index the placeholder
  \<^verbatim>\<open>None\<close> has become the empty dictionary, an extractor object its dictionary
  \<^verbatim>\<open>as_dict()\<close>, and a dictionary is left as it was; this holds whether the aggregation
  that follows returns or raises.
\<close>

theorem group_multiple_runs_mutates:
  assumes "\<forall>e. RunExtractor e \<in> set runs \<longrightarrow> (\<exists>d. as_dict e = Inr d)"
  shows "length (fst (group_multiple_runs group_by_key runs)) = length runs
     \<and> (\<forall>i<length runs.
          fst (group_multiple_runs group_by_key runs) ! i =
            (case runs ! i of
               RunNone \<Rightarrow> RunDict []
             | RunExtractor e \<Rightarrow> (case as_dict e of Inr d \<Rightarrow> RunDict d | Inl _ \<Rightarrow> RunExtractor e)
             | RunDict d \<Rightarrow> RunDict d))"
proof -
  have "fst (group_multiple_runs group_by_key runs) = fst (group_normalise 0 runs [])"
    by (simp add: group_multiple_runs_def split: prod.splits sum.splits)
  with group_normalise_list[OF assms, of 0 "[]"] show ?thesis by simp
qed

lemma as_dict_demo_stats: "as_dict (demo_stats v) = Inr [(''name'', v), (''size'', PInt 7)]"
  by (simp add: as_dict_def demo_stats_def StatsExtractorBase_getattr_def)

theorem group_multiple_runs_mutates_witness:
  "fst (group_multiple_runs (Some ''name'')
          [RunExtractor (demo_stats (PStr ''A'')), RunNone, RunDict [(''name'', PStr ''B'')]])
     = [RunDict [(''name'', PStr ''A''), (''size'', PInt 7)], RunDict [], RunDict [(''name'', PStr ''B'')]]
   \<and> snd (group_multiple_runs (Some ''name'')
          [RunExtractor (demo_stats (PStr ''A'')), RunNone, RunDict [(''name'', PStr ''B'')]])
     = Inl AssertionError"
proof -
  let ?runs = "[RunExtractor (demo_stats (PStr ''A'')), RunNone, RunDict [(''name'', PStr ''B'')]]"
  have ok: "\<forall>e. RunExtractor e \<in> set ?runs \<longrightarrow> (\<exists>d. as_dict e = Inr d)"
    by (simp add: as_dict_demo_stats)
  have len: "length (fst (group_multiple_runs (Some ''name'') ?runs)) = 3"
    and nth: "\<forall>i<3. fst (group_multiple_runs (Some ''name'') ?runs) ! i =
            (case ?runs ! i of
               RunNone \<Rightarrow> RunDict []
             | RunExtractor e \<Rightarrow> (case as_dict e of Inr d \<Rightarrow> RunDict d | Inl _ \<Rightarrow> RunExtractor e)
             | RunDict d \<Rightarrow> RunDict d)"
    using group_multiple_runs_mutates[OF ok, of "Some ''name''"] by simp_all
  have "fst (group_multiple_runs (Some ''name'') ?runs)
     = [RunDict [(''name'', PStr ''A''), (''size'', PInt 7)], RunDict [], RunDict [(''name'', PStr ''B'')]]"
  proof (rule nth_equalityI)
    show "length (fst (group_multiple_runs (Some ''name'') ?runs)) =
      length [RunDict [(''name'', PStr ''A''), (''size'', PInt 7)], RunDict [], RunDict [(''name'', PStr ''B'')]]"
      using len by simp
    fix i assume "i < length (fst (group_multiple_runs (Some ''name'') ?runs))"
    then have "i < 3" using len by simp
    then consider "i = 0" | "i = 1" | "i = 2" by linarith
    then show "fst (group_multiple_runs (Some ''name'') ?runs) ! i =
      [RunDict [(''name'', PStr ''A''), (''size'', PInt 7)], RunDict [], RunDict [(''name'', PStr ''B'')]] ! i"
      using nth by cases (simp_all add: as_dict_demo_stats)
  qed
  moreover have "snd (group_multiple_runs (Some ''name'') ?runs) = Inl AssertionError"
    by (simp add: group_multiple_runs_def as_dict_demo_stats union_keys_def py_set_def
        py_set_add_def List.map_filter_def)
  ultimately show ?thesis by simp
qed

text \<open>
  Claim C1 (the code departs from it). The set of group-by values is built from every
  record that has the key, a \<^verbatim>\<open>None\<close> value included: a run whose group-by extractor
  matched nothing makes the set \<open>{A, None}\<close> and the assertion fails, although a single
  non-null value exists. Runs that lack the key are skipped; equal values are stored
  once; two different values raise.
\<close>

theorem group_by_key_none_value_raises:
  "snd (group_multiple_runs (Some ''name'')
          [RunDict [(''name'', PStr ''A'')], RunDict [(''name'', PNone)]]) = Inl AssertionError
   \<and> snd (group_multiple_runs (Some ''name'')
          [RunExtractor (demo_stats (PStr ''A'')), RunExtractor (demo_stats PNone)])
       = Inl AssertionError
   \<and> snd (group_multiple_runs (Some ''name'')
          [RunDict [(''name'', PStr ''A'')], RunDict [(''name'', PStr ''A'')]])
       = Inr [(''name'', PStr ''A'')]
   \<and> snd (group_multiple_runs (Some ''name'')
          [RunDict [(''name'', PStr ''A'')], RunDict [(''name'', PStr ''B'')]])
       = Inl AssertionError
   \<and> snd (group_multiple_runs (Some ''name'')
          [RunDict [(''name'', PStr ''A'')], RunNone, RunDict [(''time'', PInt 3)]])
       = Inr [(''name'', PStr ''A''), (''time'', PList [PNone, PNone, PInt 3])]"
  by (simp add: group_multiple_runs_def as_dict_demo_stats union_keys_def py_set_def
      py_set_add_def List.map_filter_def)

section \<open>Properties of the footer statistics\<close>

lemma ExpandBinaryAction_lists:
  "ExpandBinaryAction act (PList ls) (PList rs) =
     (case (if length ls < length rs then expand_binary_items act rs ls
            else expand_binary_items act ls rs) of
        Inl e \<Rightarrow> Inl e
      | Inr vs \<Rightarrow> Inr (PList vs))"
  by (simp add: ExpandBinaryAction.simps expand_binary_body.simps)

lemma ExpandBinaryAction_ints:
  "ExpandBinaryAction act (PInt a) (PInt b) = act (PInt a) (PInt b)"
  by (simp add: ExpandBinaryAction.simps expand_binary_body.simps allowed_types_def)












lemma get_delta_percent_returns: "\<exists>d. get_delta_percent a b = Inr d"
proof (cases "to_float a = Fin 0")
  case True
  then show ?thesis by (simp add: get_delta_percent_def)
next
  case False
  from f_div_defined[OF this] obtain q
    where "f_div (f_sub (to_float b) (to_float a)) (to_float a) = Inr q" by blast
  then show ?thesis by (simp add: get_delta_percent_def)
qed

lemma with_deltas_returns:
  "\<exists>ds. length ds = length items
     \<and> (\<forall>i<length items. get_delta_percent r (items ! i) = Inr (ds ! i))
     \<and> with_deltas r items = Inr (map2 PWithDelta items ds)"
proof (induction items)
  case Nil
  then show ?case by simp
next
  case (Cons item items)
  then obtain ds where ds: "length ds = length items"
    "\<forall>i<length items. get_delta_percent r (items ! i) = Inr (ds ! i)"
    "with_deltas r items = Inr (map2 PWithDelta items ds)" by blast
  obtain d where d: "get_delta_percent r item = Inr d"
    using get_delta_percent_returns by blast
  have "\<forall>i<length (item # items). get_delta_percent r ((item # items) ! i) = Inr ((d # ds) ! i)"
    using ds(2) d by (auto simp: nth_Cons split: nat.splits)
  with ds d show ?case by (intro exI[of _ "d # ds"]) simp
qed

lemma add_deltas_group_nth:
  "add_deltas_group g = Inr g' \<Longrightarrow>
   length g' = length g \<and>
   (\<forall>i<length g. fst (g' ! i) = fst (g ! i) \<and> add_deltas_value (snd (g ! i)) = Inr (snd (g' ! i)))"
proof (induction g arbitrary: g')
  case Nil
  then show ?case by simp
next
  case (Cons kv g)
  obtain k v where kv: "kv = (k, v)" by (cases kv)
  from Cons.prems kv obtain v1 rest1 where
    v1: "add_deltas_value v = Inr v1" and r: "add_deltas_group g = Inr rest1"
    and g': "g' = (k, v1) # rest1"
    by (auto split: sum.splits)
  from Cons.IH[OF r] v1 g' kv show ?case
    by (auto simp: nth_Cons split: nat.splits)
qed

text \<open>
  Claim C2, amended. With \<^verbatim>\<open>with_delta\<close> the footer is the footer without deltas, each
  of its two groups annotated on its own: in a group every key keeps its place, a value
  that is not a list is left as it is, and in a list every item after the first is wrapped
  with its delta against the first item of that same list.
\<close>

theorem footer_deltas_within_each_group:
  "(compute_footer_from_grouped_runs groups False = Inr [(''max'', maxes), (''avg'', avgs)] \<longrightarrow>
      compute_footer_from_grouped_runs groups True =
        (case add_deltas_group avgs of
           Inl e \<Rightarrow> Inl e
         | Inr a \<Rightarrow>
             (case add_deltas_group maxes of
                Inl e \<Rightarrow> Inl e
              | Inr m \<Rightarrow> Inr [(''max'', m), (''avg'', a)])))
   \<and> (add_deltas_group g = Inr g' \<longrightarrow>
        length g' = length g \<and>
        (\<forall>i<length g. fst (g' ! i) = fst (g ! i)
           \<and> add_deltas_value (snd (g ! i)) = Inr (snd (g' ! i))))
   \<and> (\<exists>ds. length ds = length items
        \<and> (\<forall>i<length items. get_delta_percent ref_val (items ! i) = Inr (ds ! i))
        \<and> add_deltas_value (PList (ref_val # items))
            = Inr (PList (ref_val # map2 PWithDelta items ds)))
   \<and> (type_of v \<noteq> Ty_list \<longrightarrow> add_deltas_value v = Inr v)"
proof (intro conjI impI)
  assume "compute_footer_from_grouped_runs groups False = Inr [(''max'', maxes), (''avg'', avgs)]"
  then show "compute_footer_from_grouped_runs groups True =
        (case add_deltas_group avgs of
           Inl e \<Rightarrow> Inl e
         | Inr a \<Rightarrow>
             (case add_deltas_group maxes of
                Inl e \<Rightarrow> Inl e
              | Inr m \<Rightarrow> Inr [(''max'', m), (''avg'', a)]))"
    by (auto simp: compute_footer_from_grouped_runs_def split: sum.splits prod.splits)
next
  assume "add_deltas_group g = Inr g'"
  from add_deltas_group_nth[OF this]
  show "length g' = length g" 
    and "\<forall>i<length g. fst (g' ! i) = fst (g ! i)
           \<and> add_deltas_value (snd (g ! i)) = Inr (snd (g' ! i))" by simp_all
next
  from with_deltas_returns[of items ref_val] obtain ds where
    "length ds = length items"
    "\<forall>i<length items. get_delta_percent ref_val (items ! i) = Inr (ds ! i)"
    "with_deltas ref_val items = Inr (map2 PWithDelta items ds)" by blast
  then show "\<exists>ds. length ds = length items
        \<and> (\<forall>i<length items. get_delta_percent ref_val (items ! i) = Inr (ds ! i))
        \<and> add_deltas_value (PList (ref_val # items))
            = Inr (PList (ref_val # map2 PWithDelta items ds))"
    by (intro exI[of _ ds]) simp
next
  assume "type_of v \<noteq> Ty_list"
  then show "add_deltas_value v = Inr v" by (cases v) simp_all
qed

lemma footer_two_lists:
  "compute_footer_from_grouped_runs
      [[(''x'', PList [PInt 2, PInt 4])], [(''x'', PList [PInt 6, PInt 12])]] False
     = Inr [(''max'', [(''x'', PList [PInt 6, PInt 12])]), (''avg'', [(''x'', PList [PInt 4, PInt 8])])]"
  by (simp add: compute_footer_from_grouped_runs_def custom_sum_def custom_max_def
      ExpandBinaryAction_lists ExpandBinaryAction_ints sum_action_def max_action_def
      py_add_def py_add_num_def custom_divide_def ExpandUnaryAction.simps expand_unary_body.simps
      divide_value_def allowed_types_def float_of_int_def trunc_toward_zero_def)

theorem footer_deltas_within_each_group_witness:
  "compute_footer_from_grouped_runs
      [[(''x'', PList [PInt 2, PInt 4])], [(''x'', PList [PInt 6, PInt 12])]] False
     = Inr [(''max'', [(''x'', PList [PInt 6, PInt 12])]), (''avg'', [(''x'', PList [PInt 4, PInt 8])])]
   \<and> compute_footer_from_grouped_runs
      [[(''x'', PList [PInt 2, PInt 4])], [(''x'', PList [PInt 6, PInt 12])]] True
     = Inr [(''max'', [(''x'', PList [PInt 6, PWithDelta (PInt 12) (PFloat (Fin 1))])]),
            (''avg'', [(''x'', PList [PInt 4, PWithDelta (PInt 8) (PFloat (Fin 1))])])]
   \<and> type_of (PInt 4) \<noteq> Ty_list \<and> add_deltas_value (PInt 4) = Inr (PInt 4)
   \<and> add_deltas_group [(''x'', PInt 4)] = Inr [(''x'', PInt 4)]"
proof -
  have g: "add_deltas_group [(''x'', PInt 4)] = Inr [(''x'', PInt 4)]" by simp
  have d: "get_delta_percent (PInt 4) (PInt 8) = Inr (PFloat (Fin 1))"
    "get_delta_percent (PInt 6) (PInt 12) = Inr (PFloat (Fin 1))"
    by (simp_all add: delta_ints)
  show ?thesis
    using footer_deltas_within_each_group[of "[[(''x'', PList [PInt 2, PInt 4])], [(''x'', PList [PInt 6, PInt 12])]]"
           "[(''x'', PList [PInt 6, PInt 12])]" "[(''x'', PList [PInt 4, PInt 8])]"
           "[(''x'', PInt 4)]" "[(''x'', PInt 4)]" "[]" "PInt 4" "PInt 4"]
      footer_two_lists g d
    by simp
qed

text \<open>
  Claim C2 fails on the code: \<^verbatim>\<open>add_deltas_to_grouped_runs(sums, maxes)\<close> treats the two
  dictionaries as two groups. A scalar average carries no delta at all; in a list of
  averages the first item carries none and the second carries its delta against the first
  average (here 1.0), not a delta against the maximum (here -1/3).
\<close>

theorem footer_avg_delta_counterexample:
  "compute_footer_from_grouped_runs
      [[(''x'', PInt 2)], [(''x'', PInt 4)], [(''x'', PInt 6)]] True
     = Inr [(''max'', [(''x'', PInt 6)]), (''avg'', [(''x'', PInt 4)])]
   \<and> compute_footer_from_grouped_runs
      [[(''x'', PList [PInt 2, PInt 4])], [(''x'', PList [PInt 6, PInt 12])]] True
     = Inr [(''max'', [(''x'', PList [PInt 6, PWithDelta (PInt 12) (PFloat (Fin 1))])]),
            (''avg'', [(''x'', PList [PInt 4, PWithDelta (PInt 8) (PFloat (Fin 1))])])]
   \<and> get_delta_percent (PInt 4) (PInt 8) = Inr (PFloat (Fin 1))
   \<and> get_delta_percent (PInt 6) (PInt 4) = Inr (PFloat (Fin (- 1 / 3)))
   \<and> get_delta_percent (PInt 12) (PInt 8) = Inr (PFloat (Fin (- 1 / 3)))"
  by (simp add: compute_footer_from_grouped_runs_def custom_sum_def custom_max_def
      ExpandBinaryAction_lists ExpandBinaryAction_ints sum_action_def max_action_def
      py_add_def py_add_num_def custom_divide_def ExpandUnaryAction.simps expand_unary_body.simps
      divide_value_def allowed_types_def float_of_int_def trunc_toward_zero_def delta_ints)

section \<open>Properties of the table formatters\<close>

lemma has_delta_key:
  "map_of (p_col_has_delta (extra_info_key (k, v) s)) c =
     (if c = k
      then Some ((case map_of (p_col_has_delta s) k of Some b \<Rightarrow> b | None \<Rightarrow> False)
                 \<or> (\<exists>vals. v = PList vals \<and> list_ex is_withdelta vals))
      else map_of (p_col_has_delta s) c)"
  by (cases v) (auto simp: extra_info_key_def Let_def update_conv' split: option.splits)

lemma descriptors_key [simp]:
  "column_descriptors (extra_info_key kv s) = column_descriptors s"
  "default_column_descriptor (extra_info_key kv s) = default_column_descriptor s"
  "table (extra_info_key kv s) = table s" "footer (extra_info_key kv s) = footer s"
  by (simp_all add: extra_info_key_def Let_def)

lemma has_delta_keys:
  "map_of (p_col_has_delta (extra_info_keys g s)) c =
     (if (\<exists>w. (c, w) \<in> set g)
      then Some ((case map_of (p_col_has_delta s) c of Some b \<Rightarrow> b | None \<Rightarrow> False)
                 \<or> (\<exists>vals. (c, PList vals) \<in> set g \<and> list_ex is_withdelta vals))
      else map_of (p_col_has_delta s) c)"
proof (induction g arbitrary: s)
  case Nil
  then show ?case by simp
next
  case (Cons kv g)
  obtain k v where kv: "kv = (k, v)" by (cases kv)
  show ?case
    unfolding kv extra_info_keys.simps Cons.IH has_delta_key
    by (auto split: option.splits)
qed

lemma descriptors_keys [simp]:
  "column_descriptors (extra_info_keys g s) = column_descriptors s"
  "default_column_descriptor (extra_info_keys g s) = default_column_descriptor s"
  "table (extra_info_keys g s) = table s" "footer (extra_info_keys g s) = footer s"
  by (induction g arbitrary: s) simp_all

lemma has_delta_groups:
  "map_of (p_col_has_delta (extra_info_groups gs s)) c =
     (if \<exists>g\<in>set gs. (\<exists>w. (c, w) \<in> set g)
      then Some ((case map_of (p_col_has_delta s) c of Some b \<Rightarrow> b | None \<Rightarrow> False)
                 \<or> (\<exists>g\<in>set gs. \<exists>vals. (c, PList vals) \<in> set g \<and> list_ex is_withdelta vals))
      else map_of (p_col_has_delta s) c)"
proof (induction gs arbitrary: s)
  case Nil
  then show ?case by simp
next
  case (Cons g gs)
  show ?case
    unfolding extra_info_groups.simps Cons.IH has_delta_keys
    by (auto split: option.splits)
qed

lemma descriptors_groups [simp]:
  "column_descriptors (extra_info_groups gs s) = column_descriptors s"
  "default_column_descriptor (extra_info_groups gs s) = default_column_descriptor s"
  "table (extra_info_groups gs s) = table s" "footer (extra_info_groups gs s) = footer s"
  by (induction gs arbitrary: s) simp_all

lemma get_extra_info_has_delta:
  "map_of (p_col_has_delta (get_extra_info s)) c =
     (if \<exists>g\<in>set (table s @ footer s). (\<exists>w. (c, w) \<in> set g)
      then Some (\<exists>g\<in>set (table s @ footer s). \<exists>vals. (c, PList vals) \<in> set g \<and> list_ex is_withdelta vals)
      else None)"
  unfolding get_extra_info_def has_delta_groups by simp

lemma get_extra_info_fields [simp]:
  "column_descriptors (get_extra_info s) = column_descriptors s"
  "default_column_descriptor (get_extra_info s) = default_column_descriptor s"
  "table (get_extra_info s) = table s" "footer (get_extra_info s) = footer s"
  by (simp_all add: get_extra_info_def)

lemma get_column_attribute_get_extra_info [simp]:
  "get_column_attribute (get_extra_info s) c a d = get_column_attribute s c a d"
  by (cases c) (simp_all add: get_column_attribute_def split: option.splits)

text \<open>
  Claim C8, amended. After \<^verbatim>\<open>_get_extra_info\<close>, and so for a formatter as its
  constructor leaves it, \<^verbatim>\<open>column_has_delta\<close> of a column that occurs in some group of
  the body or footer is true exactly when a list-valued cell of that column holds a
  \<^verbatim>\<open>withdelta\<close> element, whatever its delta (an unknown column raises \<^verbatim>\<open>KeyError\<close>); and
  once \<^verbatim>\<open>toggle_delta_off\<close> is set for the column, \<^verbatim>\<open>column_has_delta\<close> is false.
\<close>

theorem column_has_delta_default:
  "(\<not> attr_truthy (get_column_attribute self (Some col) ''toggle_delta_off'' (AVal (PBool False))) \<longrightarrow>
      column_has_delta (get_extra_info self) (Some col) =
        (if \<exists>g\<in>set (table self @ footer self). (\<exists>w. (col, w) \<in> set g)
         then Inr (\<exists>g\<in>set (table self @ footer self).
                     \<exists>vals. (col, PList vals) \<in> set g \<and> list_ex is_withdelta vals)
         else Inl KeyError))
   \<and> (HTMLSheetFormatter_init grouped_runs footer_with_delta = Inr self \<longrightarrow>
        column_has_delta self (Some col) =
          (if \<exists>g\<in>set (table self @ footer self). (\<exists>w. (col, w) \<in> set g)
           then Inr (\<exists>g\<in>set (table self @ footer self).
                       \<exists>vals. (col, PList vals) \<in> set g \<and> list_ex is_withdelta vals)
           else Inl KeyError))
   \<and> column_has_delta (set_column_attribute self col ''toggle_delta_off'' (AVal (PBool True)))
        (Some col) = Inr False"
proof (intro conjI impI)
  assume "\<not> attr_truthy (get_column_attribute self (Some col) ''toggle_delta_off'' (AVal (PBool False)))"
  then show "column_has_delta (get_extra_info self) (Some col) =
        (if \<exists>g\<in>set (table self @ footer self). (\<exists>w. (col, w) \<in> set g)
         then Inr (\<exists>g\<in>set (table self @ footer self).
                     \<exists>vals. (col, PList vals) \<in> set g \<and> list_ex is_withdelta vals)
         else Inl KeyError)"
    by (simp add: column_has_delta_def TableFormatterBase_column_has_delta_def
        get_extra_info_has_delta)
next
  assume a: "HTMLSheetFormatter_init grouped_runs footer_with_delta = Inr self"
  then obtain s0 where s0: "self = get_extra_info s0" "column_descriptors s0 = []"
    "default_column_descriptor s0 = HTMLSheetFormatter_default_column_descriptor"
    by (auto simp: HTMLSheetFormatter_init_def split: sum.splits)
  have "\<not> attr_truthy (get_column_attribute s0 (Some col) ''toggle_delta_off'' (AVal (PBool False)))"
    using s0(2,3)
    by (simp add: get_column_attribute_def HTMLSheetFormatter_default_column_descriptor_def
        TableFilteredBase_default_column_descriptor_def)
  then show "column_has_delta self (Some col) =
          (if \<exists>g\<in>set (table self @ footer self). (\<exists>w. (col, w) \<in> set g)
           then Inr (\<exists>g\<in>set (table self @ footer self).
                       \<exists>vals. (col, PList vals) \<in> set g \<and> list_ex is_withdelta vals)
           else Inl KeyError)"
    unfolding s0(1)
    by (simp add: column_has_delta_def TableFormatterBase_column_has_delta_def
        get_extra_info_has_delta)
next
  show "column_has_delta (set_column_attribute self col ''toggle_delta_off'' (AVal (PBool True)))
        (Some col) = Inr False"
    by (simp add: column_has_delta_def set_column_attribute_def get_column_attribute_def
        Let_def update_conv')
qed











lemma demo_footer: "compute_footer_from_grouped_runs demo_table True =
  Inr [(''max'', [(''n'', PStr ''A<B''), (''x'', PList [PInt 5, PWithDelta (PWithDelta (PInt 6) (PFloat (Fin (1 / 5)))) PNone])]),
       (''avg'', [(''n'', PNone), (''x'', PList [PInt 5, PWithDelta (PInt 6) (PFloat (Fin (1 / 5)))])])]"
  by (simp add: demo_table_def compute_footer_from_grouped_runs_def custom_divide_def
      ExpandUnaryAction.simps expand_unary_body.simps divide_value_def allowed_types_def
      float_of_int_def trunc_toward_zero_def get_delta_percent_def num_eq_def f_sub_def)




lemma demo_init0:
  "HTMLSheetFormatter_init demo_table True = Inr (demo_formatter\<lparr>header := []\<rparr>)"
  unfolding HTMLSheetFormatter_init_def demo_footer
  by (simp add: get_extra_info_def extra_info_key_def union_keys_def demo_formatter_def
      demo_table_def Let_def)

theorem column_has_delta_default_witness:
  "HTMLSheetFormatter_init demo_table True = Inr (demo_formatter\<lparr>header := []\<rparr>)
   \<and> column_has_delta (demo_formatter\<lparr>header := []\<rparr>) (Some ''x'') = Inr True
   \<and> column_has_delta (demo_formatter\<lparr>header := []\<rparr>) (Some ''n'') = Inr False
   \<and> column_has_delta (demo_formatter\<lparr>header := []\<rparr>) (Some ''zz'') = Inl KeyError
   \<and> column_has_delta (get_extra_info demo_formatter) (Some ''x'') = Inr True
   \<and> column_has_delta
        (set_column_attribute demo_formatter ''x'' ''toggle_delta_off'' (AVal (PBool True)))
        (Some ''x'') = Inr False"
proof -
  have off: "\<not> attr_truthy (get_column_attribute demo_formatter (Some ''x'')
                ''toggle_delta_off'' (AVal (PBool False)))"
    by (simp add: get_column_attribute_def demo_formatter_def
        HTMLSheetFormatter_default_column_descriptor_def
        TableFilteredBase_default_column_descriptor_def)
  have tf: "table (demo_formatter\<lparr>header := []\<rparr>) @ footer (demo_formatter\<lparr>header := []\<rparr>)
     = [[(''n'', PStr ''A<B''), (''x'', PList [PInt 5, PWithDelta (PInt 6) (PFloat (Fin (1 / 5)))])],
        [(''n'', PStr ''A<B''),
         (''x'', PList [PInt 5, PWithDelta (PWithDelta (PInt 6) (PFloat (Fin (1 / 5)))) PNone])],
        [(''n'', PNone),
         (''x'', PList [PInt 5, PWithDelta (PInt 6) (PFloat (Fin (1 / 5)))])]]"
    "table demo_formatter @ footer demo_formatter
     = [[(''n'', PStr ''A<B''), (''x'', PList [PInt 5, PWithDelta (PInt 6) (PFloat (Fin (1 / 5)))])],
        [(''n'', PStr ''A<B''),
         (''x'', PList [PInt 5, PWithDelta (PWithDelta (PInt 6) (PFloat (Fin (1 / 5)))) PNone])],
        [(''n'', PNone),
         (''x'', PList [PInt 5, PWithDelta (PInt 6) (PFloat (Fin (1 / 5)))])]]"
    by (simp_all add: demo_formatter_def demo_table_def)
  show ?thesis
    using column_has_delta_default[of demo_formatter "''x''" demo_table True]
      column_has_delta_default[of "demo_formatter\<lparr>header := []\<rparr>" "''x''" demo_table True]
      column_has_delta_default[of "demo_formatter\<lparr>header := []\<rparr>" "''n''" demo_table True]
      column_has_delta_default[of "demo_formatter\<lparr>header := []\<rparr>" "''zz''" demo_table True]
      off demo_init0
    unfolding tf
    by simp
qed

lemma missing_footer:
  "compute_footer_from_grouped_runs [[(''x'', PList [PInt 5, PWithDelta PNone PNone])]] True =
     Inr [(''max'', [(''x'', PList [PInt 5, PWithDelta (PWithDelta PNone PNone) PNone])]),
          (''avg'', [(''x'', PList [PInt 5, PWithDelta PNone PNone])])]"
  by (simp add: compute_footer_from_grouped_runs_def custom_divide_def
      ExpandUnaryAction.simps expand_unary_body.simps divide_value_def allowed_types_def
      float_of_int_def trunc_toward_zero_def get_delta_percent_def)

text \<open>
  Claim C8 fails on the code. A run that lacks a value is annotated as
  \<^verbatim>\<open>withdelta(None, None)\<close>; in the formatter built from that group every \<^verbatim>\<open>withdelta\<close>
  of column \<^verbatim>\<open>x\<close>, in the body and in the footer, has the delta \<^verbatim>\<open>None\<close>, and
  \<^verbatim>\<open>column_has_delta\<close> is true all the same.
\<close>

theorem column_has_delta_counterexample:
  "add_deltas_group [(''x'', PList [PInt 5, PNone])]
     = Inr [(''x'', PList [PInt 5, PWithDelta PNone PNone])]
   \<and> HTMLSheetFormatter_init [[(''x'', PList [PInt 5, PWithDelta PNone PNone])]] True
       = Inr missing_run_formatter
   \<and> column_has_delta missing_run_formatter (Some ''x'') = Inr True
   \<and> table missing_run_formatter = [[(''x'', PList [PInt 5, PWithDelta PNone PNone])]]
   \<and> footer missing_run_formatter
       = [[(''x'', PList [PInt 5, PWithDelta (PWithDelta PNone PNone) PNone])],
          [(''x'', PList [PInt 5, PWithDelta PNone PNone])]]"
  unfolding HTMLSheetFormatter_init_def missing_footer
  by (simp add: get_delta_percent_def get_extra_info_def extra_info_key_def union_keys_def Let_def
      column_has_delta_def TableFormatterBase_column_has_delta_def get_column_attribute_def
      missing_run_formatter_def HTMLSheetFormatter_default_column_descriptor_def
      TableFilteredBase_default_column_descriptor_def)

end
